theory Spec2Isabelle
  imports Complex_Main
begin

section \<open>Python values and exceptions\<close>

text \<open>
  Python floats are idealised as real numbers: every comparison in the program is
  between a reading and a decimal constant, and the statements below never depend
  on the last bit of a double. Python ints are \<open>int\<close>, strings are \<open>string\<close>.
  A raised exception is the \<open>Inl\<close> branch of a sum.
\<close>

datatype py_error =
    KeyError string
  | AttributeError string
  | ValidationError string
  | Raised string

text \<open>
  \<open>Raised c\<close> is any other exception, such as one raised by the kafka client
  library; \<open>c\<close> is the qualified name of its class. \<open>str(type(e))\<close> is that
  name between \<open><class '\<close> and \<open>'>\<close>.
\<close>

fun class_name :: "py_error \<Rightarrow> string" where
  "class_name (KeyError _) = ''KeyError''"
| "class_name (AttributeError _) = ''AttributeError''"
| "class_name (ValidationError _) = ''pydantic.error_wrappers.ValidationError''"
| "class_name (Raised c) = c"

definition str_type :: "py_error \<Rightarrow> string" where
  "str_type e = ''<class '' @ [CHR 0x27] @ class_name e @ [CHR 0x27] @ ''>''"

text \<open>\<open>p in s\<close> on strings: \<open>p\<close> occurs in \<open>s\<close> as a contiguous run.\<close>

fun starts_with :: "string \<Rightarrow> string \<Rightarrow> bool" where
  "starts_with [] s = True"
| "starts_with (p # ps) [] = False"
| "starts_with (p # ps) (c # cs) = (p = c \<and> starts_with ps cs)"

fun str_in :: "string \<Rightarrow> string \<Rightarrow> bool" where
  "str_in p [] = (p = [])"
| "str_in p (c # cs) = (starts_with p (c # cs) \<or> str_in p cs)"

definition and_then :: "'e + 'a \<Rightarrow> ('a \<Rightarrow> 'e + 'b) \<Rightarrow> 'e + 'b" where
  "and_then r f = (case r of Inl e \<Rightarrow> Inl e | Inr v \<Rightarrow> f v)"

text \<open>\<open>d[k]\<close> on a dict: KeyError when the key is absent.\<close>

definition getitem :: "(string \<rightharpoonup> 'v) \<Rightarrow> string \<Rightarrow> py_error + 'v" where
  "getitem d k = (case d k of None \<Rightarrow> Inl (KeyError k) | Some v \<Rightarrow> Inr v)"

text \<open>\<open>str(n)\<close> for an int: decimal digits, a minus sign when negative.\<close>

definition digit_char :: "nat \<Rightarrow> char" where
  "digit_char d =
     (if d = 0 then CHR ''0'' else if d = 1 then CHR ''1'' else if d = 2 then CHR ''2''
      else if d = 3 then CHR ''3'' else if d = 4 then CHR ''4'' else if d = 5 then CHR ''5''
      else if d = 6 then CHR ''6'' else if d = 7 then CHR ''7'' else if d = 8 then CHR ''8''
      else CHR ''9'')"

fun str_nat :: "nat \<Rightarrow> string" where
  "str_nat n = (if n < 10 then [digit_char n]
                else str_nat (n div 10) @ [digit_char (n mod 10)])"

declare str_nat.simps [simp del]

definition str_int :: "int \<Rightarrow> string" where
  "str_int i = (if i < 0 then CHR ''-'' # str_nat (nat (- i)) else str_nat (nat i))"

text \<open>\<open>f'{i:03d}'\<close>: the decimal rendering, left-padded with zeros to width 3
  (the sign counts in the width).\<close>

definition fmt_03d :: "int \<Rightarrow> string" where
  "fmt_03d i =
     (if i < 0
      then CHR ''-'' # replicate (2 - length (str_nat (nat (- i)))) CHR ''0'' @ str_nat (nat (- i))
      else replicate (3 - length (str_nat (nat i))) CHR ''0'' @ str_nat (nat i))"

text \<open>\<open>round(x, 2)\<close>: the nearest multiple of one hundredth, ties to the even one.\<close>

definition round_half_even :: "real \<Rightarrow> int" where
  "round_half_even x =
     (let f = \<lfloor>x\<rfloor>; d = x - of_int f
      in if d < 1 / 2 then f
         else if 1 / 2 < d then f + 1
         else if even f then f else f + 1)"

definition round2 :: "real \<Rightarrow> real" where
  "round2 x = of_int (round_half_even (x * 100)) / 100"

section \<open>models: SensorData and SensorAlert\<close>

record SensorData =
  sensor_id :: string
  timestamp :: string
  temperature :: real
  humidity :: real
  pressure :: real
  battery_level :: real

text \<open>
  The pydantic constructor checks the field constraints of the model
  (temperature ge=15 le=35, humidity ge=20 le=95, battery_level ge=0 le=1; pressure
  has none) and raises ValidationError when one fails.
\<close>

definition new_SensorData ::
  "string \<Rightarrow> string \<Rightarrow> real \<Rightarrow> real \<Rightarrow> real \<Rightarrow> real \<Rightarrow> py_error + SensorData" where
  "new_SensorData sid ts t h p b =
     (if \<not> (15 \<le> t \<and> t \<le> 35) then Inl (ValidationError ''temperature'')
      else if \<not> (20 \<le> h \<and> h \<le> 95) then Inl (ValidationError ''humidity'')
      else if \<not> (0 \<le> b \<and> b \<le> 1) then Inl (ValidationError ''battery_level'')
      else Inr \<lparr>sensor_id = sid, timestamp = ts, temperature = t, humidity = h,
                pressure = p, battery_level = b\<rparr>)"

text \<open>
  An f-string is kept as its parts: the literal text and the formatted floats
  (\<open>{x}\<close> and \<open>{x:.0f}\<close>). Accented letters and the degree sign of the literals
  are written in ASCII.
\<close>

datatype fpart = Lit string | Float real | Float0f real

record SensorAlert =
  alert_id :: string
  alert_sensor_id :: string
  alert_type :: string
  severity :: string
  "value" :: real
  threshold :: real
  message :: "fpart list"
  alert_timestamp :: string

section \<open>services/sensor_simulator: SensorSimulator\<close>

text \<open>
  The simulator object: its event counter and its two configuration dicts, each a
  dict of dicts with string keys. The Faker instance of the source is never read.
\<close>

record SensorSimulator =
  event_counter :: int
  normal_ranges :: "string \<rightharpoonup> (string \<rightharpoonup> real)"
  alert_thresholds :: "string \<rightharpoonup> (string \<rightharpoonup> real)"

definition SensorSimulator_init :: SensorSimulator where
  "SensorSimulator_init =
     \<lparr>event_counter = 0,
      normal_ranges = map_of
        [(''temperature'', map_of [(''mean'', 22), (''std'', 2), (''min'', 15), (''max'', 35)]),
         (''humidity'', map_of [(''mean'', 55), (''std'', 8), (''min'', 20), (''max'', 95)]),
         (''pressure'', map_of [(''mean'', 101325 / 100), (''std'', 5), (''min'', 980), (''max'', 1040)]),
         (''battery'', map_of [(''min'', 3 / 10), (''max'', 1)])],
      alert_thresholds = map_of
        [(''temperature'', map_of [(''low'', 18), (''high'', 26), (''critical'', 30)]),
         (''humidity'', map_of [(''low'', 30), (''high'', 80), (''critical'', 90)]),
         (''pressure'', map_of [(''low'', 1000), (''high'', 1025)]),
         (''battery'', map_of [(''low'', 2 / 10), (''critical'', 1 / 10)])]\<rparr>"

text \<open>
  The clock: what \<open>datetime.utcnow()\<close> gives during one call, as its ISO text and
  as whole seconds since the epoch.
\<close>

record clock =
  now_iso :: string
  now_epoch :: int

text \<open>
  The random module: an endless sequence of variates, one consumed by each call.
  \<open>random.gauss(mu, sigma)\<close> reads its variate as a standard normal deviate,
  \<open>random.uniform(a, b)\<close> reads it as the value of \<open>random.random()\<close>, which
  lies in the half-open unit interval.
\<close>

type_synonym rng = "nat \<Rightarrow> real"

definition unit_variate :: "real \<Rightarrow> bool" where
  "unit_variate u = (0 \<le> u \<and> u < 1)"

text \<open>A method body: it reads and updates a state, and returns or raises.\<close>

type_synonym ('s, 'a) prog = "'s \<Rightarrow> (py_error + 'a) \<times> 's"

definition ret :: "'a \<Rightarrow> ('s, 'a) prog" where
  "ret v s = (Inr v, s)"

definition lift :: "py_error + 'a \<Rightarrow> ('s, 'a) prog" where
  "lift r s = (r, s)"

definition seq :: "('s, 'a) prog \<Rightarrow> ('a \<Rightarrow> ('s, 'b) prog) \<Rightarrow> ('s, 'b) prog" where
  "seq m f s = (case m s of (Inl e, s') \<Rightarrow> (Inl e, s') | (Inr v, s') \<Rightarrow> f v s')"

text \<open>The state of a generating method: the simulator and the random module.\<close>

definition random_gauss :: "real \<Rightarrow> real \<Rightarrow> (SensorSimulator \<times> rng, real) prog" where
  "random_gauss mu sigma s = (Inr (mu + snd s 0 * sigma), (fst s, \<lambda>n. snd s (Suc n)))"

definition random_uniform :: "real \<Rightarrow> real \<Rightarrow> (SensorSimulator \<times> rng, real) prog" where
  "random_uniform a b s = (Inr (a + (b - a) * snd s 0), (fst s, \<lambda>n. snd s (Suc n)))"

definition self_normal_ranges :: "string \<Rightarrow> (SensorSimulator \<times> rng, string \<rightharpoonup> real) prog" where
  "self_normal_ranges k s = (getitem (normal_ranges (fst s)) k, s)"

definition incr_event_counter :: "(SensorSimulator \<times> rng, unit) prog" where
  "incr_event_counter s = (Inr (), (fst s\<lparr>event_counter := event_counter (fst s) + 1\<rparr>, snd s))"

definition generate_sensor_data ::
  "clock \<Rightarrow> string \<Rightarrow> (SensorSimulator \<times> rng, SensorData) prog" where
  "generate_sensor_data clk sid =
     seq (self_normal_ranges ''temperature'') (\<lambda>temp_config.
     seq (lift (getitem temp_config ''mean'')) (\<lambda>t_mean.
     seq (lift (getitem temp_config ''std'')) (\<lambda>t_std.
     seq (random_gauss t_mean t_std) (\<lambda>temperature0.
     seq (lift (getitem temp_config ''min'')) (\<lambda>t_min.
     seq (lift (getitem temp_config ''max'')) (\<lambda>t_max.
     let temperature1 = round2 (max t_min (min t_max temperature0)) in
     seq (self_normal_ranges ''humidity'') (\<lambda>humid_config.
     seq (lift (getitem temp_config ''mean'')) (\<lambda>t_mean'.
     let humidity_adjustment = (temperature1 - t_mean') * (- 2) in
     seq (lift (getitem humid_config ''mean'')) (\<lambda>h_mean.
     seq (lift (getitem humid_config ''std'')) (\<lambda>h_std.
     seq (random_gauss (h_mean + humidity_adjustment) h_std) (\<lambda>humidity0.
     seq (lift (getitem humid_config ''min'')) (\<lambda>h_min.
     seq (lift (getitem humid_config ''max'')) (\<lambda>h_max.
     let humidity1 = round2 (max h_min (min h_max humidity0)) in
     seq (self_normal_ranges ''pressure'') (\<lambda>pressure_config.
     seq (lift (getitem pressure_config ''mean'')) (\<lambda>p_mean.
     seq (lift (getitem pressure_config ''std'')) (\<lambda>p_std.
     seq (random_gauss p_mean p_std) (\<lambda>pressure0.
     seq (lift (getitem pressure_config ''min'')) (\<lambda>p_min.
     seq (lift (getitem pressure_config ''max'')) (\<lambda>p_max.
     let pressure1 = round2 (max p_min (min p_max pressure0)) in
     seq (self_normal_ranges ''battery'') (\<lambda>battery_config.
     seq (lift (getitem battery_config ''min'')) (\<lambda>b_min.
     seq (lift (getitem battery_config ''max'')) (\<lambda>b_max.
     seq (random_uniform b_min b_max) (\<lambda>battery0.
     let battery1 = round2 battery0 in
     seq incr_event_counter (\<lambda>_.
     lift (new_SensorData sid (now_iso clk @ ''Z'') temperature1 humidity1 pressure1 battery1)
     ))))))))))))))))))))))))"

text \<open>
  \<open>generate_custom_sensor_data\<close>: \<open>None\<close> is the omitted optional argument.
\<close>

definition generate_custom_sensor_data ::
  "clock \<Rightarrow> string \<Rightarrow> real \<Rightarrow> real \<Rightarrow> real option \<Rightarrow> real option
     \<Rightarrow> (SensorSimulator \<times> rng, SensorData) prog" where
  "generate_custom_sensor_data clk sid temperature0 humidity0 pressure_arg battery_arg =
     seq (case pressure_arg of
            None \<Rightarrow>
              seq (self_normal_ranges ''pressure'') (\<lambda>pressure_config.
              seq (lift (getitem pressure_config ''mean'')) (\<lambda>p_mean.
              seq (lift (getitem pressure_config ''std'')) (\<lambda>p_std.
              seq (random_gauss p_mean p_std) (\<lambda>g. ret (round2 g)))))
          | Some p \<Rightarrow> ret p) (\<lambda>pressure1.
     seq (case battery_arg of
            None \<Rightarrow>
              seq (self_normal_ranges ''battery'') (\<lambda>battery_config.
              seq (lift (getitem battery_config ''min'')) (\<lambda>b_min.
              seq (lift (getitem battery_config ''max'')) (\<lambda>b_max.
              seq (random_uniform b_min b_max) (\<lambda>u. ret (round2 u)))))
          | Some b \<Rightarrow> ret b) (\<lambda>battery1.
     lift (new_SensorData sid (now_iso clk @ ''Z'') temperature0 humidity0 pressure1 battery1)))"

text \<open>
  \<open>generate_batch\<close>: the loop over \<open>range(1, count + 1)\<close>, appending each reading;
  an exception leaves the loop at once.
\<close>

fun generate_batch_loop ::
  "clock \<Rightarrow> int list \<Rightarrow> SensorData list \<Rightarrow> (SensorSimulator \<times> rng, SensorData list) prog" where
  "generate_batch_loop clk [] batch = ret batch"
| "generate_batch_loop clk (i # is) batch =
     seq (generate_sensor_data clk (''sensor_'' @ fmt_03d i)) (\<lambda>data.
     generate_batch_loop clk is (batch @ [data]))"

definition generate_batch :: "clock \<Rightarrow> int \<Rightarrow> (SensorSimulator \<times> rng, SensorData list) prog" where
  "generate_batch clk count = generate_batch_loop clk [1..count] []"

subsection \<open>Anomaly detection\<close>

text \<open>
  The private methods \<open>_create_alert\<close> and \<open>_check_..._alerts\<close> are named
  without the leading underscore. The fields \<open>sensor_id\<close> and \<open>timestamp\<close> of an
  alert are \<open>alert_sensor_id\<close> and \<open>alert_timestamp\<close>.
\<close>

definition create_alert ::
  "clock \<Rightarrow> SensorSimulator \<Rightarrow> SensorData \<Rightarrow> string \<Rightarrow> string \<Rightarrow> real \<Rightarrow> real \<Rightarrow> fpart list
     \<Rightarrow> SensorAlert" where
  "create_alert clk self sensor_data atype sev v th msg =
     \<lparr>alert_id = ''alert_'' @ str_int (event_counter self) @ ''_'' @ atype @ ''_''
                   @ str_int (now_epoch clk),
      alert_sensor_id = sensor_id sensor_data,
      alert_type = atype,
      severity = sev,
      value = v,
      threshold = th,
      message = msg,
      alert_timestamp = now_iso clk @ ''Z''\<rparr>"

definition check_temperature_alerts ::
  "clock \<Rightarrow> SensorSimulator \<Rightarrow> SensorData \<Rightarrow> py_error + SensorAlert list" where
  "check_temperature_alerts clk self sensor_data =
     (let temp = temperature sensor_data in
      and_then (getitem (alert_thresholds self) ''temperature'') (\<lambda>thresholds.
      and_then (getitem thresholds ''critical'') (\<lambda>critical.
      if temp \<ge> critical then
        Inr [create_alert clk self sensor_data ''temperature'' ''critical'' temp critical
               [Lit ''Temperature critique: '', Float temp, Lit ''C (seuil: '', Float critical, Lit ''C)'']]
      else
      and_then (getitem thresholds ''high'') (\<lambda>high.
      if temp \<ge> high then
        Inr [create_alert clk self sensor_data ''temperature'' ''high'' temp high
               [Lit ''Temperature elevee: '', Float temp, Lit ''C (seuil: '', Float high, Lit ''C)'']]
      else
      and_then (getitem thresholds ''low'') (\<lambda>low.
      if temp \<le> low then
        Inr [create_alert clk self sensor_data ''temperature'' ''low'' temp low
               [Lit ''Temperature basse: '', Float temp, Lit ''C (seuil: '', Float low, Lit ''C)'']]
      else Inr [])))))"

definition check_humidity_alerts ::
  "clock \<Rightarrow> SensorSimulator \<Rightarrow> SensorData \<Rightarrow> py_error + SensorAlert list" where
  "check_humidity_alerts clk self sensor_data =
     (let hum = humidity sensor_data in
      and_then (getitem (alert_thresholds self) ''humidity'') (\<lambda>thresholds.
      and_then (getitem thresholds ''critical'') (\<lambda>critical.
      if hum \<ge> critical then
        Inr [create_alert clk self sensor_data ''humidity'' ''critical'' hum critical
               [Lit ''Humidite critique: '', Float hum, Lit ''% (seuil: '', Float critical, Lit ''%)'']]
      else
      and_then (getitem thresholds ''high'') (\<lambda>high.
      if hum \<ge> high then
        Inr [create_alert clk self sensor_data ''humidity'' ''high'' hum high
               [Lit ''Humidite elevee: '', Float hum, Lit ''% (seuil: '', Float high, Lit ''%)'']]
      else
      and_then (getitem thresholds ''low'') (\<lambda>low.
      if hum \<le> low then
        Inr [create_alert clk self sensor_data ''humidity'' ''low'' hum low
               [Lit ''Humidite basse: '', Float hum, Lit ''% (seuil: '', Float low, Lit ''%)'']]
      else Inr [])))))"

definition check_pressure_alerts ::
  "clock \<Rightarrow> SensorSimulator \<Rightarrow> SensorData \<Rightarrow> py_error + SensorAlert list" where
  "check_pressure_alerts clk self sensor_data =
     (let pres = pressure sensor_data in
      and_then (getitem (alert_thresholds self) ''pressure'') (\<lambda>thresholds.
      and_then (getitem thresholds ''high'') (\<lambda>high.
      if pres \<ge> high then
        Inr [create_alert clk self sensor_data ''pressure'' ''medium'' pres high
               [Lit ''Pression elevee: '', Float pres, Lit '' hPa (seuil: '', Float high, Lit '' hPa)'']]
      else
      and_then (getitem thresholds ''low'') (\<lambda>low.
      if pres \<le> low then
        Inr [create_alert clk self sensor_data ''pressure'' ''medium'' pres low
               [Lit ''Pression basse: '', Float pres, Lit '' hPa (seuil: '', Float low, Lit '' hPa)'']]
      else Inr []))))"

definition check_battery_alerts ::
  "clock \<Rightarrow> SensorSimulator \<Rightarrow> SensorData \<Rightarrow> py_error + SensorAlert list" where
  "check_battery_alerts clk self sensor_data =
     (let battery = battery_level sensor_data in
      and_then (getitem (alert_thresholds self) ''battery'') (\<lambda>thresholds.
      and_then (getitem thresholds ''critical'') (\<lambda>critical.
      if battery \<le> critical then
        Inr [create_alert clk self sensor_data ''battery'' ''critical'' battery critical
               [Lit ''Batterie critique: '', Float0f (battery * 100), Lit ''% (seuil: '',
                Float0f (critical * 100), Lit ''%)'']]
      else
      and_then (getitem thresholds ''low'') (\<lambda>low.
      if battery \<le> low then
        Inr [create_alert clk self sensor_data ''battery'' ''medium'' battery low
               [Lit ''Batterie faible: '', Float0f (battery * 100), Lit ''% (seuil: '',
                Float0f (low * 100), Lit ''%)'']]
      else Inr []))))"

definition detect_anomalies ::
  "clock \<Rightarrow> SensorSimulator \<Rightarrow> SensorData \<Rightarrow> py_error + SensorAlert list" where
  "detect_anomalies clk self sensor_data =
     and_then (check_temperature_alerts clk self sensor_data) (\<lambda>temp_alerts.
     and_then (check_humidity_alerts clk self sensor_data) (\<lambda>humidity_alerts.
     and_then (check_pressure_alerts clk self sensor_data) (\<lambda>pressure_alerts.
     and_then (check_battery_alerts clk self sensor_data) (\<lambda>battery_alerts.
     Inr (temp_alerts @ humidity_alerts @ pressure_alerts @ battery_alerts)))))"

section \<open>services/kafka_service: KafkaManager\<close>

text \<open>
  The two client objects of the kafka library, each given by the arguments it was
  constructed with (the producer also gets a JSON value serializer).
\<close>

record KafkaAdminClient =
  admin_bootstrap_servers :: "string list"
  admin_client_id :: string

record KafkaProducer =
  producer_bootstrap_servers :: "string list"
  producer_client_id :: string
  acks :: string
  retries :: int
  linger_ms :: int
  compression_type :: string

record KafkaManager =
  bootstrap_servers :: "string list"
  client_id :: string
  producer :: "KafkaProducer option"
  admin_client :: "KafkaAdminClient option"
  is_connected :: bool

definition KafkaManager_init :: "string list \<Rightarrow> string \<Rightarrow> KafkaManager" where
  "KafkaManager_init servers cid =
     \<lparr>bootstrap_servers = servers, client_id = cid, producer = None, admin_client = None,
      is_connected = False\<rparr>"

text \<open>
  The attributes a KafkaManager object has of its own: those set in \<open>__init__\<close>
  and the methods of the class (every object has the dunder attributes of \<open>object\<close>
  besides). Reading an attribute it does not have raises AttributeError.
\<close>

definition KafkaManager_attributes :: "string list" where
  "KafkaManager_attributes =
     [''bootstrap_servers'', ''client_id'', ''producer'', ''admin_client'', ''is_connected'',
      ''__init__'', ''initialize'', ''ensure_topics_exist'', ''publish_message'',
      ''publish_batch'', ''get_connection_status'', ''close'']"

definition getattr_self :: "string \<Rightarrow> py_error + unit" where
  "getattr_self a = (if a \<in> set KafkaManager_attributes then Inr () else Inl (AttributeError a))"

text \<open>
  What the broker answers when \<open>initialize\<close> opens its two clients: \<open>None\<close> when
  the constructor returns, \<open>Some e\<close> when it raises \<open>e\<close>.
\<close>

record connect_env =
  admin_open :: "py_error option"
  producer_open :: "py_error option"

text \<open>
  \<open>initialize\<close>. The result is \<open>Some b\<close> for a returned bool and \<open>None\<close> for
  Python's \<open>None\<close>, which a function returns when its body ends without a
  \<open>return\<close>. The try block ends with the call \<open>self._ensure_topics_exist()\<close>; were
  that attribute found, the body would end after the call.
\<close>

definition initialize :: "connect_env \<Rightarrow> KafkaManager \<Rightarrow> bool option \<times> KafkaManager" where
  "initialize env self =
     (case admin_open env of
        Some e \<Rightarrow> (Some False, self\<lparr>is_connected := False\<rparr>)
      | None \<Rightarrow>
          (let self1 = self\<lparr>admin_client :=
                  Some \<lparr>admin_bootstrap_servers = bootstrap_servers self,
                        admin_client_id = client_id self @ ''_admin''\<rparr>\<rparr>
           in (case producer_open env of
                 Some e \<Rightarrow> (Some False, self1\<lparr>is_connected := False\<rparr>)
               | None \<Rightarrow>
                   (let self2 = self1\<lparr>producer :=
                           Some \<lparr>producer_bootstrap_servers = bootstrap_servers self1,
                                 producer_client_id = client_id self1,
                                 acks = ''all'', retries = 3, linger_ms = 10,
                                 compression_type = ''gzip''\<rparr>\<rparr>;
                        self3 = self2\<lparr>is_connected := True\<rparr>
                    in (case getattr_self ''_ensure_topics_exist'' of
                          Inl e \<Rightarrow> (Some False, self3\<lparr>is_connected := False\<rparr>)
                        | Inr _ \<Rightarrow> (None, self3))))))"

text \<open>Topic configurations are dicts whose values are strings or ints.\<close>

datatype cfg_value = CfgStr string | CfgInt int

record NewTopic =
  name :: cfg_value
  num_partitions :: cfg_value
  replication_factor :: cfg_value

definition dict_get :: "(string \<rightharpoonup> 'v) \<Rightarrow> string \<Rightarrow> 'v \<Rightarrow> 'v" where
  "dict_get d k dflt = (case d k of None \<Rightarrow> dflt | Some v \<Rightarrow> v)"

fun new_topics :: "(string \<rightharpoonup> cfg_value) list \<Rightarrow> NewTopic list \<Rightarrow> py_error + NewTopic list" where
  "new_topics [] topics = Inr topics"
| "new_topics (config # rest) topics =
     and_then (getitem config ''name'') (\<lambda>nm.
     new_topics rest
       (topics @ [\<lparr>name = nm,
                   num_partitions = dict_get config ''partitions'' (CfgInt 1),
                   replication_factor = dict_get config ''replication'' (CfgInt 1)\<rparr>]))"

text \<open>
  \<open>ensure_topics_exist\<close>. The first argument is the admin client's answer to the
  \<open>create_topics\<close> request: \<open>None\<close> when it returns, \<open>Some e\<close> when it raises.
  Every exception of the try block reaches the one handler, which decides by the
  text of the exception's class. The \<open>NewTopic\<close> constructor is taken to accept
  its arguments.
\<close>

definition ensure_topics_handler :: "py_error \<Rightarrow> bool" where
  "ensure_topics_handler e =
     (if str_in ''TopicAlreadyExistsException'' (str_type e) then True else False)"

definition ensure_topics_exist ::
  "(NewTopic list \<Rightarrow> py_error option) \<Rightarrow> KafkaManager \<Rightarrow> (string \<rightharpoonup> cfg_value) list \<Rightarrow> bool" where
  "ensure_topics_exist create_topics self topics_config =
     (if admin_client self = None then False
      else case new_topics topics_config [] of
             Inl e \<Rightarrow> ensure_topics_handler e
           | Inr topics \<Rightarrow>
               (case create_topics topics of
                  Some e \<Rightarrow> ensure_topics_handler e
                | None \<Rightarrow> True))"

text \<open>
  The producer as the manager sees it: a record of the calls made to it, each with
  its outcome, and the outcomes still to come. The outcome of the next call is
  \<open>script\<close> at the number of calls made so far: \<open>None\<close> when the call returns,
  \<open>Some e\<close> when it raises. A \<open>Send\<close> stands for \<open>producer.send(topic, value)\<close>
  followed by \<open>future.get(timeout=10)\<close>, so its outcome covers serialization, the
  send and the wait for the acknowledgment.
\<close>

datatype 'm producer_call = Send string 'm | Flush

record 'm broker =
  script :: "nat \<Rightarrow> py_error option"
  calls :: "('m producer_call \<times> py_error option) list"

definition producer_do :: "'m producer_call \<Rightarrow> 'm broker \<Rightarrow> py_error option \<times> 'm broker" where
  "producer_do c w =
     (let out = script w (length (calls w)) in (out, w\<lparr>calls := calls w @ [(c, out)]\<rparr>))"

text \<open>
  \<open>publish_message\<close>: both handlers (KafkaError and Exception) return False, so
  every raised outcome does.
\<close>

definition publish_message ::
  "string \<Rightarrow> 'm \<Rightarrow> KafkaManager \<Rightarrow> 'm broker \<Rightarrow> bool \<times> KafkaManager \<times> 'm broker" where
  "publish_message tp msg self w =
     (if \<not> is_connected self \<or> producer self = None then (False, self, w)
      else case producer_do (Send tp msg) w of
             (None, w') \<Rightarrow> (True, self, w')
           | (Some e, w') \<Rightarrow> (False, self, w'))"

fun publish_batch_loop ::
  "string \<Rightarrow> 'm list \<Rightarrow> int \<Rightarrow> KafkaManager \<Rightarrow> 'm broker \<Rightarrow> int \<times> KafkaManager \<times> 'm broker" where
  "publish_batch_loop tp [] published_count self w = (published_count, self, w)"
| "publish_batch_loop tp (msg # rest) published_count self w =
     (case publish_message tp msg self w of
        (ok, self', w') \<Rightarrow>
          publish_batch_loop tp rest
            (if ok then published_count + 1 else published_count) self' w')"

text \<open>\<open>publish_batch\<close>: an exception of \<open>flush\<close> is not caught here.\<close>

definition publish_batch ::
  "string \<Rightarrow> 'm list \<Rightarrow> KafkaManager \<Rightarrow> 'm broker \<Rightarrow> (py_error + int) \<times> KafkaManager \<times> 'm broker" where
  "publish_batch tp messages self w =
     (if \<not> is_connected self \<or> producer self = None then (Inr 0, self, w)
      else case publish_batch_loop tp messages 0 self w of
             (published_count, self', w') \<Rightarrow>
               (case producer_do Flush w' of
                  (None, w'') \<Rightarrow> (Inr published_count, self', w'')
                | (Some e, w'') \<Rightarrow> (Inl e, self', w'')))"

section \<open>api/sensors: trigger_sensors\<close>

definition SENSOR_TOPIC :: string where
  "SENSOR_TOPIC = ''sensors''"

definition ALERT_TOPIC :: string where
  "ALERT_TOPIC = ''alerts''"

text \<open>What is published: \<open>sensor_data.dict()\<close> or \<open>alert.dict()\<close>.\<close>

datatype payload = ReadingDict SensorData | AlertDict SensorAlert

datatype http_exception = HTTPException int string "py_error option"

text \<open>
  The fields \<open>timestamp\<close> and \<open>message\<close> of the response are
  \<open>response_timestamp\<close> and \<open>response_message\<close>.
\<close>

record TriggerResponse =
  status :: string
  sensors_triggered :: int
  events_published :: int
  topic :: string
  response_timestamp :: string
  response_message :: string

text \<open>
  What the router closes over: the manager, the simulator and the statistics dict,
  together with the random module and the producer.
\<close>

record app =
  kafka_manager :: KafkaManager
  sensor_simulator :: SensorSimulator
  statistics :: "string \<rightharpoonup> int"
  random :: rng
  kafka :: "payload broker"

definition app_publish :: "string \<Rightarrow> payload \<Rightarrow> app \<Rightarrow> bool \<times> app" where
  "app_publish tp msg st =
     (case publish_message tp msg (kafka_manager st) (kafka st) of
        (ok, km, w) \<Rightarrow> (ok, st\<lparr>kafka_manager := km, kafka := w\<rparr>))"

text \<open>\<open>statistics[k] += n\<close>: the read raises KeyError when the key is absent.\<close>

definition statistics_add :: "string \<Rightarrow> int \<Rightarrow> (app, unit) prog" where
  "statistics_add k n st =
     (case statistics st k of
        None \<Rightarrow> (Inl (KeyError k), st)
      | Some v \<Rightarrow> (Inr (), st\<lparr>statistics := (statistics st)(k \<mapsto> v + n)\<rparr>))"

fun alerts_loop :: "SensorAlert list \<Rightarrow> int \<Rightarrow> (app, int) prog" where
  "alerts_loop [] alerts_generated st = (Inr alerts_generated, st)"
| "alerts_loop (alert # rest) alerts_generated st =
     (case app_publish ALERT_TOPIC (AlertDict alert) st of
        (ok, st') \<Rightarrow>
          alerts_loop rest (if ok then alerts_generated + 1 else alerts_generated) st')"

fun sensors_loop :: "clock \<Rightarrow> SensorData list \<Rightarrow> int \<times> int \<Rightarrow> (app, int \<times> int) prog" where
  "sensors_loop clk [] counts st = (Inr counts, st)"
| "sensors_loop clk (sensor_data # rest) (published_count, alerts_generated) st =
     (case app_publish SENSOR_TOPIC (ReadingDict sensor_data) st of
        (False, st1) \<Rightarrow> sensors_loop clk rest (published_count, alerts_generated) st1
      | (True, st1) \<Rightarrow>
          seq (statistics_add ''total_events_published'' 1) (\<lambda>_.
          seq (\<lambda>s. (detect_anomalies clk (sensor_simulator s) sensor_data, s)) (\<lambda>alerts.
          seq (alerts_loop alerts alerts_generated) (\<lambda>alerts_generated'.
          sensors_loop clk rest (published_count + 1, alerts_generated')))) st1)"

definition app_generate_batch :: "clock \<Rightarrow> int \<Rightarrow> (app, SensorData list) prog" where
  "app_generate_batch clk count st =
     (case generate_batch clk count (sensor_simulator st, random st) of
        (r, (sim, rnd)) \<Rightarrow> (r, st\<lparr>sensor_simulator := sim, random := rnd\<rparr>))"

definition success_message :: "int \<Rightarrow> int \<Rightarrow> int \<Rightarrow> string" where
  "success_message published_count count alerts_generated =
     ''Successfully published '' @ str_int published_count @ ''/'' @ str_int count
       @ '' sensor events''
       @ (if alerts_generated > 0 then '' and '' @ str_int alerts_generated @ '' alerts''
          else [])"

text \<open>
  \<open>trigger_sensors\<close>: the body of the route. The framework has checked
  \<open>1 \<le> count \<le> 100\<close> before the body runs; the body itself takes any int.
  An exception of the try block becomes the HTTPException 500, with the state as the
  exception left it.
\<close>

definition trigger_sensors :: "clock \<Rightarrow> int \<Rightarrow> app \<Rightarrow> (http_exception + TriggerResponse) \<times> app" where
  "trigger_sensors clk count st =
     (if \<not> is_connected (kafka_manager st) then
        (Inl (HTTPException 503 ''Kafka connection unavailable. Check service health.'' None), st)
      else
        case seq (app_generate_batch clk count) (\<lambda>batch.
             seq (sensors_loop clk batch (0, 0)) (\<lambda>(published_count, alerts_generated).
             seq (statistics_add ''total_sensors_triggered'' count) (\<lambda>_.
             ret \<lparr>status = ''success'',
                  sensors_triggered = count,
                  events_published = published_count,
                  topic = SENSOR_TOPIC,
                  response_timestamp = now_iso clk @ ''Z'',
                  response_message = success_message published_count count alerts_generated\<rparr>))) st
        of (Inl e, st') \<Rightarrow> (Inl (HTTPException 500 ''Failed to trigger sensors: '' (Some e)), st')
         | (Inr response, st') \<Rightarrow> (Inr response, st'))"

subsection \<open>Counting the producer's calls\<close>

text \<open>
  A call of the producer's record is an acknowledged reading when it is a send to the
  sensors topic that returned, a failed reading when it is a send to the sensors topic
  that raised. The manager can send when it is connected and has a producer.
\<close>

definition reading_acked :: "payload producer_call \<times> py_error option \<Rightarrow> bool" where
  "reading_acked c =
     (case c of (Send tp m, out) \<Rightarrow> tp = SENSOR_TOPIC \<and> out = None | (Flush, out) \<Rightarrow> False)"

definition reading_failed :: "payload producer_call \<times> py_error option \<Rightarrow> bool" where
  "reading_failed c =
     (case c of (Send tp m, out) \<Rightarrow> tp = SENSOR_TOPIC \<and> out \<noteq> None | (Flush, out) \<Rightarrow> False)"

definition acked_readings :: "app \<Rightarrow> int" where
  "acked_readings st = int (length (filter reading_acked (calls (kafka st))))"

definition failed_readings :: "app \<Rightarrow> int" where
  "failed_readings st = int (length (filter reading_failed (calls (kafka st))))"

definition can_send :: "app \<Rightarrow> bool" where
  "can_send st = (is_connected (kafka_manager st) \<and> producer (kafka_manager st) \<noteq> None)"

section \<open>Concrete inputs\<close>

definition reading_hot_low_battery :: SensorData where
  "reading_hot_low_battery =
     \<lparr>sensor_id = ''sensor_001'', timestamp = ''2025-10-29T14:30:00Z'', temperature = 31,
      humidity = 55, pressure = 1013, battery_level = 15 / 100\<rparr>"

definition clock0 :: clock where
  "clock0 = \<lparr>now_iso = ''2025-10-29T14:30:00'', now_epoch = 1761748200\<rparr>"

text \<open>
  Two random sequences: the first gives the deviate 7.35 to the first call, the second
  gives it to the third call; every other call gets one half.
\<close>

definition rng_custom_example :: rng where
  "rng_custom_example = (\<lambda>n. if n = 0 then 735 / 100 else 1 / 2)"

definition rng_generate_example :: rng where
  "rng_generate_example = (\<lambda>n. if n = 2 then 735 / 100 else 1 / 2)"

definition simulator_after_7 :: SensorSimulator where
  "simulator_after_7 = SensorSimulator_init\<lparr>event_counter := 7\<rparr>"

definition reading_custom_hot :: SensorData where
  "reading_custom_hot =
     \<lparr>sensor_id = ''sensor_custom'', timestamp = ''2025-10-29T14:30:00Z'', temperature = 31,
      humidity = 55, pressure = 1013, battery_level = 1 / 2\<rparr>"

definition alert_custom_hot :: SensorAlert where
  "alert_custom_hot =
     create_alert clock0 simulator_after_7 reading_custom_hot ''temperature'' ''critical'' 31 30
       [Lit ''Temperature critique: '', Float 31, Lit ''C (seuil: '', Float 30, Lit ''C)'']"

text \<open>
  A manager as \<open>main\<close> constructs it, a broker that lets both clients open, the
  manager that \<open>initialize\<close> then leaves behind, and the topic configuration of
  \<open>get_kafka_topics_config\<close> with its defaults.
\<close>

definition manager0 :: KafkaManager where
  "manager0 = KafkaManager_init [''localhost:9092''] ''iot_producer''"

definition env_both_open :: connect_env where
  "env_both_open = \<lparr>admin_open = None, producer_open = None\<rparr>"

definition manager_clients_open :: KafkaManager where
  "manager_clients_open =
     \<lparr>bootstrap_servers = [''localhost:9092''], client_id = ''iot_producer'',
      producer = Some \<lparr>producer_bootstrap_servers = [''localhost:9092''],
                       producer_client_id = ''iot_producer'', acks = ''all'', retries = 3,
                       linger_ms = 10, compression_type = ''gzip''\<rparr>,
      admin_client = Some \<lparr>admin_bootstrap_servers = [''localhost:9092''],
                           admin_client_id = ''iot_producer_admin''\<rparr>,
      is_connected = False\<rparr>"

definition topics_config0 :: "(string \<rightharpoonup> cfg_value) list" where
  "topics_config0 =
     [map_of [(''name'', CfgStr ''sensors''), (''partitions'', CfgInt 1), (''replication'', CfgInt 1)],
      map_of [(''name'', CfgStr ''alerts''), (''partitions'', CfgInt 1), (''replication'', CfgInt 1)]]"

text \<open>
  A connected manager, and a producer whose second and fourth calls time out.
\<close>

definition manager_connected :: KafkaManager where
  "manager_connected = manager_clients_open\<lparr>is_connected := True\<rparr>"

definition script_fail_1_3 :: "nat \<Rightarrow> py_error option" where
  "script_fail_1_3 = (\<lambda>n. if n = 1 \<or> n = 3 then Some (Raised ''kafka.errors.KafkaTimeoutError'') else None)"

text \<open>
  The application with zeroed statistics, a random module that always gives one half,
  and a producer whose first call times out; the reading that this random module
  generates, and the response to a trigger of two readings.
\<close>

definition rng_half :: rng where
  "rng_half = (\<lambda>n. 1 / 2)"

definition script_fail_first :: "nat \<Rightarrow> py_error option" where
  "script_fail_first = (\<lambda>n. if n = 0 then Some (Raised ''kafka.errors.KafkaTimeoutError'') else None)"

definition app0 :: app where
  "app0 = \<lparr>kafka_manager = manager_connected,
           sensor_simulator = SensorSimulator_init,
           statistics = map_of [(''total_events_published'', 0), (''total_sensors_triggered'', 0)],
           random = rng_half,
           kafka = \<lparr>script = script_fail_first, calls = []\<rparr>\<rparr>"

definition reading_half :: "string \<Rightarrow> SensorData" where
  "reading_half sid =
     \<lparr>sensor_id = sid, timestamp = ''2025-10-29T14:30:00Z'', temperature = 23, humidity = 57,
      pressure = 101575 / 100, battery_level = 65 / 100\<rparr>"

definition response0 :: TriggerResponse where
  "response0 =
     \<lparr>status = ''success'', sensors_triggered = 2, events_published = 1, topic = ''sensors'',
      response_timestamp = ''2025-10-29T14:30:00Z'',
      response_message = ''Successfully published 1/2 sensor events''\<rparr>"

section \<open>Anomaly detection: the threshold ladders\<close>

lemma check_temperature_shape:
  "check_temperature_alerts clk self sd = Inr as \<Longrightarrow>
     length as \<le> 1 \<and> (\<forall>a\<in>set as. alert_type a = ''temperature'')"
  by (auto simp: check_temperature_alerts_def and_then_def getitem_def Let_def create_alert_def
           split: option.splits if_splits sum.splits)

lemma check_humidity_shape:
  "check_humidity_alerts clk self sd = Inr as \<Longrightarrow>
     length as \<le> 1 \<and> (\<forall>a\<in>set as. alert_type a = ''humidity'')"
  by (auto simp: check_humidity_alerts_def and_then_def getitem_def Let_def create_alert_def
           split: option.splits if_splits sum.splits)

lemma check_pressure_shape:
  "check_pressure_alerts clk self sd = Inr as \<Longrightarrow>
     length as \<le> 1 \<and> (\<forall>a\<in>set as. alert_type a = ''pressure'')"
  by (auto simp: check_pressure_alerts_def and_then_def getitem_def Let_def create_alert_def
           split: option.splits if_splits sum.splits)

lemma check_battery_shape:
  "check_battery_alerts clk self sd = Inr as \<Longrightarrow>
     length as \<le> 1 \<and> (\<forall>a\<in>set as. alert_type a = ''battery'')"
  by (auto simp: check_battery_alerts_def and_then_def getitem_def Let_def create_alert_def
           split: option.splits if_splits sum.splits)

lemma filter_typed:
  assumes "length as \<le> 1" and "\<forall>a\<in>set as. alert_type a = t"
  shows "length (filter (\<lambda>a. alert_type a = d) as) \<le> (if d = t then 1 else 0)"
proof (cases "d = t")
  case True
  have "length (filter (\<lambda>a. alert_type a = d) as) \<le> length as" by (rule length_filter_le)
  also note assms(1)
  finally show ?thesis using True by simp
next
  case False
  with assms(2) have "filter (\<lambda>a. alert_type a = d) as = []" by (auto simp: filter_empty_conv)
  with False show ?thesis by simp
qed

lemma detect_anomalies_split:
  assumes "detect_anomalies clk self sd = Inr alerts"
  shows "\<exists>ta ha pa ba. alerts = ta @ ha @ pa @ ba
           \<and> check_temperature_alerts clk self sd = Inr ta
           \<and> check_humidity_alerts clk self sd = Inr ha
           \<and> check_pressure_alerts clk self sd = Inr pa
           \<and> check_battery_alerts clk self sd = Inr ba"
  using assms by (auto simp: detect_anomalies_def and_then_def split: sum.splits)

lemma and_then_Inr: "and_then (Inr v) f = f v"
  by (simp add: and_then_def)

lemma thresholds_init:
  assumes "alert_thresholds self = alert_thresholds SensorSimulator_init"
  shows "alert_thresholds self ''temperature'' = Some (map_of [(''low'', 18), (''high'', 26), (''critical'', 30)])"
    and "alert_thresholds self ''humidity'' = Some (map_of [(''low'', 30), (''high'', 80), (''critical'', 90)])"
    and "alert_thresholds self ''pressure'' = Some (map_of [(''low'', 1000), (''high'', 1025)])"
    and "alert_thresholds self ''battery'' = Some (map_of [(''low'', 2 / 10), (''critical'', 1 / 10)])"
  using assms by (simp_all add: SensorSimulator_init_def)

lemma checks_total_init:
  assumes "alert_thresholds self = alert_thresholds SensorSimulator_init"
  shows "\<exists>as. check_temperature_alerts clk self sd = Inr as"
    and "\<exists>as. check_humidity_alerts clk self sd = Inr as"
    and "\<exists>as. check_pressure_alerts clk self sd = Inr as"
    and "\<exists>as. check_battery_alerts clk self sd = Inr as"
  by (simp_all add: check_temperature_alerts_def check_humidity_alerts_def
        check_pressure_alerts_def check_battery_alerts_def thresholds_init[OF assms]
        and_then_Inr Let_def getitem_def)

lemma detect_anomalies_total_init:
  assumes "alert_thresholds self = alert_thresholds SensorSimulator_init"
  shows "\<exists>alerts. detect_anomalies clk self sd = Inr alerts"
  using checks_total_init[OF assms, of clk sd]
  by (auto simp: detect_anomalies_def and_then_def)


lemma filter_other_type:
  assumes "\<forall>a\<in>set as. alert_type a = t" and "d \<noteq> t"
  shows "filter (\<lambda>a. alert_type a = d) as = []"
  using assms by (auto simp: filter_empty_conv)

lemma detect_anomalies_per_dimension:
  assumes "detect_anomalies clk self sd = Inr alerts"
  shows "length (filter (\<lambda>a. alert_type a = d) alerts) \<le> 1"
proof -
  from detect_anomalies_split[OF assms] obtain ta ha pa ba where
    alerts: "alerts = ta @ ha @ pa @ ba"
    and t: "check_temperature_alerts clk self sd = Inr ta"
    and h: "check_humidity_alerts clk self sd = Inr ha"
    and p: "check_pressure_alerts clk self sd = Inr pa"
    and b: "check_battery_alerts clk self sd = Inr ba"
    by blast
  have ft: "length (filter (\<lambda>a. alert_type a = d) ta) \<le> (if d = ''temperature'' then 1 else 0)"
    using check_temperature_shape[OF t] by (intro filter_typed) simp_all
  have fh: "length (filter (\<lambda>a. alert_type a = d) ha) \<le> (if d = ''humidity'' then 1 else 0)"
    using check_humidity_shape[OF h] by (intro filter_typed) simp_all
  have fp: "length (filter (\<lambda>a. alert_type a = d) pa) \<le> (if d = ''pressure'' then 1 else 0)"
    using check_pressure_shape[OF p] by (intro filter_typed) simp_all
  have fb: "length (filter (\<lambda>a. alert_type a = d) ba) \<le> (if d = ''battery'' then 1 else 0)"
    using check_battery_shape[OF b] by (intro filter_typed) simp_all
  have "length (filter (\<lambda>a. alert_type a = d) alerts)
          = length (filter (\<lambda>a. alert_type a = d) ta) + length (filter (\<lambda>a. alert_type a = d) ha)
            + length (filter (\<lambda>a. alert_type a = d) pa) + length (filter (\<lambda>a. alert_type a = d) ba)"
    by (simp add: alerts)
  also have "\<dots> \<le> (if d = ''temperature'' then 1 else 0) + (if d = ''humidity'' then 1 else 0)
                 + (if d = ''pressure'' then 1 else 0) + (if d = ''battery'' then 1 else 0)"
    using ft fh fp fb by (intro add_mono)
  also have "\<dots> \<le> 1" by simp
  finally show ?thesis .
qed

lemma detect_anomalies_length:
  assumes "detect_anomalies clk self sd = Inr alerts"
  shows "length alerts \<le> 4"
    and "alert_type ` set alerts \<subseteq> {''temperature'', ''humidity'', ''pressure'', ''battery''}"
proof -
  from detect_anomalies_split[OF assms] obtain ta ha pa ba where
    alerts: "alerts = ta @ ha @ pa @ ba"
    and t: "check_temperature_alerts clk self sd = Inr ta"
    and h: "check_humidity_alerts clk self sd = Inr ha"
    and p: "check_pressure_alerts clk self sd = Inr pa"
    and b: "check_battery_alerts clk self sd = Inr ba"
    by blast
  show "length alerts \<le> 4"
    using check_temperature_shape[OF t] check_humidity_shape[OF h]
      check_pressure_shape[OF p] check_battery_shape[OF b]
    by (simp add: alerts)
  show "alert_type ` set alerts \<subseteq> {''temperature'', ''humidity'', ''pressure'', ''battery''}"
    using check_temperature_shape[OF t] check_humidity_shape[OF h]
      check_pressure_shape[OF p] check_battery_shape[OF b]
    by (auto simp: alerts)
qed

lemma at_most_one_same:
  assumes "length (filter P xs) \<le> 1" and "a \<in> set xs" and "b \<in> set xs" and "P a" and "P b"
  shows "a = b"
proof -
  from assms have ab: "a \<in> set (filter P xs)" "b \<in> set (filter P xs)" by simp_all
  show ?thesis
  proof (cases "filter P xs")
    case Nil
    with ab show ?thesis by simp
  next
    case (Cons x ys)
    with assms(1) have "ys = []" by simp
    with Cons ab show ?thesis by simp
  qed
qed

text \<open>
  Claim C4. For every reading, \<open>detect_anomalies\<close> yields at most one alert for each
  dimension: whenever it returns a list, no alert type occurs twice in it, the list has
  at most four alerts, every alert is of type temperature, humidity, pressure or
  battery, and no two alerts of one dimension are reported as high and as critical.
  With the thresholds set by the constructor it always returns a list.
\<close>

theorem detect_anomalies_at_most_one_per_dimension:
  "(alert_thresholds self = alert_thresholds SensorSimulator_init \<longrightarrow>
      (\<exists>alerts. detect_anomalies clk self sd = Inr alerts))
   \<and> (\<forall>alerts. detect_anomalies clk self sd = Inr alerts \<longrightarrow>
        (\<forall>d. length (filter (\<lambda>a. alert_type a = d) alerts) \<le> 1)
      \<and> length alerts \<le> 4
      \<and> alert_type ` set alerts \<subseteq> {''temperature'', ''humidity'', ''pressure'', ''battery''}
      \<and> \<not> (\<exists>a\<in>set alerts. \<exists>b\<in>set alerts.
              alert_type a = alert_type b \<and> severity a = ''high'' \<and> severity b = ''critical''))"
proof (intro conjI impI allI)
  assume "alert_thresholds self = alert_thresholds SensorSimulator_init"
  then show "\<exists>alerts. detect_anomalies clk self sd = Inr alerts"
    by (rule detect_anomalies_total_init)
next
  fix alerts d assume "detect_anomalies clk self sd = Inr alerts"
  then show "length (filter (\<lambda>a. alert_type a = d) alerts) \<le> 1"
    by (rule detect_anomalies_per_dimension)
next
  fix alerts assume "detect_anomalies clk self sd = Inr alerts"
  then show "length alerts \<le> 4" by (rule detect_anomalies_length(1))
next
  fix alerts assume "detect_anomalies clk self sd = Inr alerts"
  then show "alert_type ` set alerts \<subseteq> {''temperature'', ''humidity'', ''pressure'', ''battery''}"
    by (rule detect_anomalies_length(2))
next
  fix alerts assume d: "detect_anomalies clk self sd = Inr alerts"
  show "\<not> (\<exists>a\<in>set alerts. \<exists>b\<in>set alerts.
              alert_type a = alert_type b \<and> severity a = ''high'' \<and> severity b = ''critical'')"
  proof
    assume "\<exists>a\<in>set alerts. \<exists>b\<in>set alerts.
              alert_type a = alert_type b \<and> severity a = ''high'' \<and> severity b = ''critical''"
    then obtain a b where ab: "a \<in> set alerts" "b \<in> set alerts" "alert_type a = alert_type b"
      "severity a = ''high''" "severity b = ''critical''" by blast
    have "a = b"
      using detect_anomalies_per_dimension[OF d, of "alert_type a"] ab(1,2,3)
      by (intro at_most_one_same[where P = "\<lambda>x. alert_type x = alert_type a" and xs = alerts]) simp_all
    with ab(4,5) show False by simp
  qed
qed

theorem detect_anomalies_at_most_one_per_dimension_witness:
  "alert_thresholds SensorSimulator_init = alert_thresholds SensorSimulator_init
   \<and> detect_anomalies clock0 SensorSimulator_init reading_hot_low_battery =
       Inr [create_alert clock0 SensorSimulator_init reading_hot_low_battery
              ''temperature'' ''critical'' 31 30
              [Lit ''Temperature critique: '', Float 31, Lit ''C (seuil: '', Float 30, Lit ''C)''],
            create_alert clock0 SensorSimulator_init reading_hot_low_battery
              ''battery'' ''medium'' (15 / 100) (2 / 10)
              [Lit ''Batterie faible: '', Float0f 15, Lit ''% (seuil: '', Float0f 20, Lit ''%)'']]
   \<and> (\<forall>d. length (filter (\<lambda>a. alert_type a = d)
         [create_alert clock0 SensorSimulator_init reading_hot_low_battery
              ''temperature'' ''critical'' 31 30
              [Lit ''Temperature critique: '', Float 31, Lit ''C (seuil: '', Float 30, Lit ''C)''],
            create_alert clock0 SensorSimulator_init reading_hot_low_battery
              ''battery'' ''medium'' (15 / 100) (2 / 10)
              [Lit ''Batterie faible: '', Float0f 15, Lit ''% (seuil: '', Float0f 20, Lit ''%)'']]) \<le> 1)"
proof -
  have ev: "detect_anomalies clock0 SensorSimulator_init reading_hot_low_battery =
       Inr [create_alert clock0 SensorSimulator_init reading_hot_low_battery
              ''temperature'' ''critical'' 31 30
              [Lit ''Temperature critique: '', Float 31, Lit ''C (seuil: '', Float 30, Lit ''C)''],
            create_alert clock0 SensorSimulator_init reading_hot_low_battery
              ''battery'' ''medium'' (15 / 100) (2 / 10)
              [Lit ''Batterie faible: '', Float0f 15, Lit ''% (seuil: '', Float0f 20, Lit ''%)'']]"
    by (simp add: detect_anomalies_def check_temperature_alerts_def check_humidity_alerts_def
        check_pressure_alerts_def check_battery_alerts_def and_then_Inr Let_def getitem_def
        thresholds_init[OF refl] reading_hot_low_battery_def)
  note per_dim = detect_anomalies_at_most_one_per_dimension
         [of SensorSimulator_init clock0 reading_hot_low_battery,
          THEN conjunct2, THEN spec, THEN mp, OF ev, THEN conjunct1]
  from ev per_dim show ?thesis by (intro conjI refl)
qed

text \<open>
  Claim C3. For every reading whose battery level is 0.15, under the thresholds of the
  constructor (battery low 0.2, critical 0.1), the battery check yields exactly one
  alert, this is the only alert of dimension battery that \<open>detect_anomalies\<close>
  returns, and its severity is medium (threshold 0.2), not critical.
\<close>

theorem battery_015_yields_one_medium_alert:
  assumes "battery_level sd = 15 / 100"
    and "alert_thresholds self = alert_thresholds SensorSimulator_init"
  shows "\<exists>alerts a. detect_anomalies clk self sd = Inr alerts
          \<and> check_battery_alerts clk self sd = Inr [a]
          \<and> filter (\<lambda>x. alert_type x = ''battery'') alerts = [a]
          \<and> alert_type a = ''battery'' \<and> severity a = ''medium'' \<and> severity a \<noteq> ''critical''
          \<and> threshold a = 2 / 10 \<and> value a = 15 / 100"
proof -
  from detect_anomalies_total_init[OF assms(2)] obtain alerts where
    d: "detect_anomalies clk self sd = Inr alerts" by blast
  from detect_anomalies_split[OF d] obtain ta ha pa ba where
    alerts: "alerts = ta @ ha @ pa @ ba"
    and t: "check_temperature_alerts clk self sd = Inr ta"
    and h: "check_humidity_alerts clk self sd = Inr ha"
    and p: "check_pressure_alerts clk self sd = Inr pa"
    and b: "check_battery_alerts clk self sd = Inr ba"
    by blast
  define a where "a = create_alert clk self sd ''battery'' ''medium'' (15 / 100) (2 / 10)
      [Lit ''Batterie faible: '', Float0f (15 / 100 * 100), Lit ''% (seuil: '',
       Float0f (2 / 10 * 100), Lit ''%)'']"
  have ba: "check_battery_alerts clk self sd = Inr [a]"
    by (simp add: check_battery_alerts_def thresholds_init[OF assms(2)] assms(1)
        and_then_Inr Let_def getitem_def a_def)
  with b have "ba = [a]" by simp
  moreover have "filter (\<lambda>x. alert_type x = ''battery'') ta = []"
    using check_temperature_shape[OF t] by (intro filter_other_type[where t = "''temperature''"]) simp_all
  moreover have "filter (\<lambda>x. alert_type x = ''battery'') ha = []"
    using check_humidity_shape[OF h] by (intro filter_other_type[where t = "''humidity''"]) simp_all
  moreover have "filter (\<lambda>x. alert_type x = ''battery'') pa = []"
    using check_pressure_shape[OF p] by (intro filter_other_type[where t = "''pressure''"]) simp_all
  moreover have props: "alert_type a = ''battery''" "severity a = ''medium''" "threshold a = 2 / 10"
    "value a = 15 / 100"
    by (simp_all add: a_def create_alert_def)
  ultimately have "filter (\<lambda>x. alert_type x = ''battery'') alerts = [a]"
    by (simp add: alerts)
  with d ba props show ?thesis by auto
qed


theorem battery_015_yields_one_medium_alert_witness:
  "battery_level reading_hot_low_battery = 15 / 100
   \<and> alert_thresholds SensorSimulator_init = alert_thresholds SensorSimulator_init
   \<and> (\<exists>a. check_battery_alerts clock0 SensorSimulator_init reading_hot_low_battery = Inr [a]
          \<and> severity a = ''medium'' \<and> threshold a = 2 / 10)"
proof -
  have b: "battery_level reading_hot_low_battery = 15 / 100"
    by (simp add: reading_hot_low_battery_def)
  from battery_015_yields_one_medium_alert[OF b refl, of clock0] obtain alerts a where
    "detect_anomalies clock0 SensorSimulator_init reading_hot_low_battery = Inr alerts"
    "check_battery_alerts clock0 SensorSimulator_init reading_hot_low_battery = Inr [a]"
    "severity a = ''medium''" "threshold a = 2 / 10"
    by (elim exE conjE)
  with b show ?thesis by (intro conjI exI[of _ a]) simp_all
qed

section \<open>Generation of readings\<close>

lemma round_half_even_lower: "of_int n \<le> x \<Longrightarrow> n \<le> round_half_even x"
proof -
  assume "of_int n \<le> x"
  then have "n \<le> \<lfloor>x\<rfloor>" by (simp add: le_floor_iff)
  then show ?thesis by (simp add: round_half_even_def Let_def)
qed

lemma round_half_even_upper: "x \<le> of_int m \<Longrightarrow> round_half_even x \<le> m"
proof (cases "x = of_int m")
  case True
  then show ?thesis by (simp add: round_half_even_def Let_def)
next
  case False
  assume "x \<le> of_int m"
  with False have "x < of_int m" by simp
  then have "\<lfloor>x\<rfloor> < m" by (simp add: floor_less_iff)
  then show ?thesis by (simp add: round_half_even_def Let_def)
qed

lemma round2_bounds:
  assumes "of_int n / 100 \<le> x" and "x \<le> of_int m / 100"
  shows "of_int n / 100 \<le> round2 x \<and> round2 x \<le> of_int m / 100"
proof -
  from assms have "of_int n \<le> x * 100" and "x * 100 \<le> of_int m" by simp_all
  then have "n \<le> round_half_even (x * 100)" and "round_half_even (x * 100) \<le> m"
    by (simp_all add: round_half_even_lower round_half_even_upper)
  then have "(of_int n :: real) \<le> of_int (round_half_even (x * 100))"
    and "(of_int (round_half_even (x * 100)) :: real) \<le> of_int m"
    by simp_all
  then show ?thesis by (simp add: round2_def divide_right_mono)
qed

lemma normal_ranges_init:
  assumes "normal_ranges self = normal_ranges SensorSimulator_init"
  shows "normal_ranges self ''temperature'' = Some (map_of [(''mean'', 22), (''std'', 2), (''min'', 15), (''max'', 35)])"
    and "normal_ranges self ''humidity'' = Some (map_of [(''mean'', 55), (''std'', 8), (''min'', 20), (''max'', 95)])"
    and "normal_ranges self ''pressure'' = Some (map_of [(''mean'', 101325 / 100), (''std'', 5), (''min'', 980), (''max'', 1040)])"
    and "normal_ranges self ''battery'' = Some (map_of [(''min'', 3 / 10), (''max'', 1)])"
  using assms by (simp_all add: SensorSimulator_init_def)

lemma seq_lift_Inr: "seq (lift (Inr v)) f s = f v s"
  by (simp add: seq_def lift_def)

lemma seq_self_normal_ranges:
  "normal_ranges (fst s) k = Some d \<Longrightarrow> seq (self_normal_ranges k) f s = f d s"
  by (simp add: seq_def self_normal_ranges_def getitem_def)

lemma seq_random_gauss:
  "seq (random_gauss mu sigma) f s = f (mu + snd s 0 * sigma) (fst s, \<lambda>n. snd s (Suc n))"
  by (simp add: seq_def random_gauss_def)

lemma seq_random_uniform:
  "seq (random_uniform a b) f s = f (a + (b - a) * snd s 0) (fst s, \<lambda>n. snd s (Suc n))"
  by (simp add: seq_def random_uniform_def)

lemma seq_incr_event_counter:
  "seq incr_event_counter f s = f () (fst s\<lparr>event_counter := event_counter (fst s) + 1\<rparr>, snd s)"
  by (simp add: seq_def incr_event_counter_def)

lemma cfg_lookups:
  "getitem (map_of [(''mean'', 22), (''std'', 2), (''min'', 15), (''max'', 35::real)]) ''mean'' = Inr 22"
  "getitem (map_of [(''mean'', 22), (''std'', 2), (''min'', 15), (''max'', 35::real)]) ''std'' = Inr 2"
  "getitem (map_of [(''mean'', 22), (''std'', 2), (''min'', 15), (''max'', 35::real)]) ''min'' = Inr 15"
  "getitem (map_of [(''mean'', 22), (''std'', 2), (''min'', 15), (''max'', 35::real)]) ''max'' = Inr 35"
  "getitem (map_of [(''mean'', 55), (''std'', 8), (''min'', 20), (''max'', 95::real)]) ''mean'' = Inr 55"
  "getitem (map_of [(''mean'', 55), (''std'', 8), (''min'', 20), (''max'', 95::real)]) ''std'' = Inr 8"
  "getitem (map_of [(''mean'', 55), (''std'', 8), (''min'', 20), (''max'', 95::real)]) ''min'' = Inr 20"
  "getitem (map_of [(''mean'', 55), (''std'', 8), (''min'', 20), (''max'', 95::real)]) ''max'' = Inr 95"
  "getitem (map_of [(''mean'', 101325 / 100), (''std'', 5), (''min'', 980), (''max'', 1040::real)]) ''mean'' = Inr (101325 / 100)"
  "getitem (map_of [(''mean'', 101325 / 100), (''std'', 5), (''min'', 980), (''max'', 1040::real)]) ''std'' = Inr 5"
  "getitem (map_of [(''mean'', 101325 / 100), (''std'', 5), (''min'', 980), (''max'', 1040::real)]) ''min'' = Inr 980"
  "getitem (map_of [(''mean'', 101325 / 100), (''std'', 5), (''min'', 980), (''max'', 1040::real)]) ''max'' = Inr 1040"
  "getitem (map_of [(''min'', 3 / 10), (''max'', 1::real)]) ''min'' = Inr (3 / 10)"
  "getitem (map_of [(''min'', 3 / 10), (''max'', 1::real)]) ''max'' = Inr 1"
  by (simp_all add: getitem_def)

lemma generate_sensor_data_init:
  assumes "normal_ranges self = normal_ranges SensorSimulator_init"
  shows "generate_sensor_data clk sid (self, r) =
     (new_SensorData sid (now_iso clk @ ''Z'')
        (round2 (max 15 (min 35 (22 + r 0 * 2))))
        (round2 (max 20 (min 95 (55 + (round2 (max 15 (min 35 (22 + r 0 * 2))) - 22) * (- 2) + r 1 * 8))))
        (round2 (max 980 (min 1040 (101325 / 100 + r 2 * 5))))
        (round2 (3 / 10 + (1 - 3 / 10) * r 3)),
      (self\<lparr>event_counter := event_counter self + 1\<rparr>, \<lambda>n. r (Suc (Suc (Suc (Suc n))))))"
  unfolding generate_sensor_data_def Let_def
  by (simp only: seq_self_normal_ranges normal_ranges_init[OF assms] seq_lift_Inr cfg_lookups
        seq_random_gauss seq_random_uniform seq_incr_event_counter lift_def fst_conv snd_conv
        numeral_2_eq_2 numeral_3_eq_3 One_nat_def)

lemma new_SensorData_ok:
  assumes "15 \<le> t" "t \<le> 35" "20 \<le> h" "h \<le> 95" "0 \<le> b" "b \<le> 1"
  shows "new_SensorData sid ts t h p b =
           Inr \<lparr>sensor_id = sid, timestamp = ts, temperature = t, humidity = h,
                pressure = p, battery_level = b\<rparr>"
  using assms by (simp add: new_SensorData_def)

lemma clamp_round2:
  assumes "of_int n \<le> (of_int m :: real)"
  shows "of_int n / 100 \<le> round2 (max (of_int n / 100) (min (of_int m / 100) x))
       \<and> round2 (max (of_int n / 100) (min (of_int m / 100) x)) \<le> of_int m / 100"
proof (rule round2_bounds)
  show "of_int n / 100 \<le> max (of_int n / 100) (min (of_int m / 100) x)" by simp
  from assms have "of_int n / 100 \<le> (of_int m / 100 :: real)" by (simp add: divide_right_mono)
  then show "max (of_int n / 100) (min (of_int m / 100) x) \<le> of_int m / 100" by simp
qed

lemma temperature_range: "15 \<le> round2 (max 15 (min 35 x)) \<and> round2 (max 15 (min 35 x)) \<le> 35"
  using clamp_round2[of 1500 3500 x] by simp

lemma humidity_range: "20 \<le> round2 (max 20 (min 95 x)) \<and> round2 (max 20 (min 95 x)) \<le> 95"
  using clamp_round2[of 2000 9500 x] by simp

lemma pressure_range: "980 \<le> round2 (max 980 (min 1040 x)) \<and> round2 (max 980 (min 1040 x)) \<le> 1040"
  using clamp_round2[of 98000 104000 x] by simp

lemma battery_range:
  assumes "unit_variate u"
  shows "3 / 10 \<le> round2 (3 / 10 + (1 - 3 / 10) * u) \<and> round2 (3 / 10 + (1 - 3 / 10) * u) \<le> 1"
proof -
  from assms have "0 \<le> u" and "u \<le> 1" by (simp_all add: unit_variate_def)
  then have "of_int 30 / 100 \<le> 3 / 10 + (1 - 3 / 10) * u" and "3 / 10 + (1 - 3 / 10) * u \<le> of_int 100 / 100"
    by simp_all
  from round2_bounds[OF this] show ?thesis by simp
qed

text \<open>
  Claim C5. For every reading that \<open>generate_sensor_data\<close> produces with the ranges
  of the constructor, whatever the three normal deviates are and for every value of
  \<open>random.random()\<close> in the unit interval, the call returns a reading and its
  temperature lies in [15, 35], its humidity in [20, 95], its pressure in [980, 1040]
  and its battery level in [0, 1].
\<close>

theorem generate_sensor_data_ranges:
  assumes "normal_ranges self = normal_ranges SensorSimulator_init"
    and "unit_variate (r 3)"
  shows "\<exists>sd st'. generate_sensor_data clk sid (self, r) = (Inr sd, st')
           \<and> 15 \<le> temperature sd \<and> temperature sd \<le> 35
           \<and> 20 \<le> humidity sd \<and> humidity sd \<le> 95
           \<and> 980 \<le> pressure sd \<and> pressure sd \<le> 1040
           \<and> 0 \<le> battery_level sd \<and> battery_level sd \<le> 1"
proof -
  define t where "t = round2 (max 15 (min 35 (22 + r 0 * 2)))"
  define h where "h = round2 (max 20 (min 95 (55 + (t - 22) * (- 2) + r 1 * 8)))"
  define p where "p = round2 (max 980 (min 1040 (101325 / 100 + r 2 * 5)))"
  define b where "b = round2 (3 / 10 + (1 - 3 / 10) * r 3)"
  have t: "15 \<le> t \<and> t \<le> 35" unfolding t_def by (rule temperature_range)
  have h: "20 \<le> h \<and> h \<le> 95" unfolding h_def by (rule humidity_range)
  have p: "980 \<le> p \<and> p \<le> 1040" unfolding p_def by (rule pressure_range)
  have b: "3 / 10 \<le> b \<and> b \<le> 1" unfolding b_def by (rule battery_range[OF assms(2)])
  then have b0: "0 \<le> b" by simp
  have "generate_sensor_data clk sid (self, r) =
          (new_SensorData sid (now_iso clk @ ''Z'') t h p b,
           (self\<lparr>event_counter := event_counter self + 1\<rparr>, \<lambda>n. r (Suc (Suc (Suc (Suc n))))))"
    unfolding t_def h_def p_def b_def by (rule generate_sensor_data_init[OF assms(1)])
  also have "new_SensorData sid (now_iso clk @ ''Z'') t h p b =
          Inr \<lparr>sensor_id = sid, timestamp = now_iso clk @ ''Z'', temperature = t, humidity = h,
               pressure = p, battery_level = b\<rparr>"
    using t h b b0 by (intro new_SensorData_ok) simp_all
  finally show ?thesis using t h p b b0 by simp
qed

theorem generate_sensor_data_ranges_witness:
  "normal_ranges SensorSimulator_init = normal_ranges SensorSimulator_init
   \<and> unit_variate (rng_generate_example 3)
   \<and> (\<exists>sd st'. generate_sensor_data clock0 ''sensor_001'' (SensorSimulator_init, rng_generate_example)
                  = (Inr sd, st')
           \<and> 15 \<le> temperature sd \<and> temperature sd \<le> 35
           \<and> 20 \<le> humidity sd \<and> humidity sd \<le> 95
           \<and> 980 \<le> pressure sd \<and> pressure sd \<le> 1040
           \<and> 0 \<le> battery_level sd \<and> battery_level sd \<le> 1)"
proof -
  have u: "unit_variate (rng_generate_example 3)"
    by (simp add: unit_variate_def rng_generate_example_def)
  from generate_sensor_data_ranges
         [of SensorSimulator_init rng_generate_example clock0 "''sensor_001''", OF refl u] u
  show ?thesis by (intro conjI refl)
qed

lemma round2_of_int_div: "round2 (of_int n / 100) = of_int n / 100"
  by (simp add: round2_def round_half_even_def)

lemma round2_examples:
  "round2 23 = 23" "round2 57 = 57" "round2 1050 = 1050" "round2 1040 = 1040" "round2 (13 / 20) = 13 / 20"
  using round2_of_int_div[of 2300] round2_of_int_div[of 5700] round2_of_int_div[of 105000]
    round2_of_int_div[of 104000] round2_of_int_div[of 65]
  by simp_all

lemma seq_assoc: "seq (seq m f) g = seq m (\<lambda>x. seq (f x) g)"
  by (auto simp: seq_def fun_eq_iff split: prod.splits sum.splits)

lemma seq_ret: "seq (ret v) f = f v"
  by (simp add: seq_def ret_def fun_eq_iff)

lemma generate_custom_init:
  assumes "normal_ranges self = normal_ranges SensorSimulator_init"
  shows "generate_custom_sensor_data clk sid t h None None (self, r) =
     (new_SensorData sid (now_iso clk @ ''Z'') t h
        (round2 (101325 / 100 + r 0 * 5))
        (round2 (3 / 10 + (1 - 3 / 10) * r 1)),
      (self, \<lambda>n. r (Suc (Suc n))))"
  unfolding generate_custom_sensor_data_def
  by (simp only: seq_self_normal_ranges normal_ranges_init[OF assms] seq_lift_Inr cfg_lookups
        seq_random_gauss seq_random_uniform lift_def fst_conv snd_conv option.case
        seq_assoc seq_ret One_nat_def)

text \<open>
  Claim C6. With pressure and battery omitted, \<open>generate_custom_sensor_data\<close> rounds
  the normal draw without clamping it. For the same deviate 7.35 (a draw of 1050) and
  the same uniform variate, the custom reading has pressure 1050 where
  \<open>generate_sensor_data\<close> gives 1040; the battery levels agree.
\<close>

theorem custom_pressure_not_clamped:
  "fst (generate_custom_sensor_data clock0 ''sensor_custom'' 23 57 None None
          (SensorSimulator_init, rng_custom_example))
     = Inr \<lparr>sensor_id = ''sensor_custom'', timestamp = ''2025-10-29T14:30:00Z'',
            temperature = 23, humidity = 57, pressure = 1050, battery_level = 65 / 100\<rparr>
   \<and> fst (generate_sensor_data clock0 ''sensor_custom'' (SensorSimulator_init, rng_generate_example))
     = Inr \<lparr>sensor_id = ''sensor_custom'', timestamp = ''2025-10-29T14:30:00Z'',
            temperature = 23, humidity = 57, pressure = 1040, battery_level = 65 / 100\<rparr>
   \<and> rng_custom_example 0 = rng_generate_example 2
   \<and> rng_custom_example 1 = rng_generate_example 3"
  by (simp add: generate_custom_init generate_sensor_data_init rng_custom_example_def
        rng_generate_example_def round2_examples new_SensorData_def clock0_def)

lemma generate_custom_frame:
  "fst (snd (generate_custom_sensor_data clk sid t h p b (self, r))) = self"
  by (simp add: generate_custom_sensor_data_def seq_def ret_def lift_def self_normal_ranges_def
        random_gauss_def random_uniform_def
      split: option.splits sum.splits prod.splits)

lemma check_temperature_ids:
  "check_temperature_alerts clk self sd = Inr as \<Longrightarrow>
     \<forall>a\<in>set as. alert_id a = ''alert_'' @ str_int (event_counter self) @ ''_'' @ alert_type a @ ''_''
                     @ str_int (now_epoch clk)"
  by (auto simp: check_temperature_alerts_def and_then_def getitem_def Let_def create_alert_def
           split: option.splits if_splits sum.splits)

lemma check_humidity_ids:
  "check_humidity_alerts clk self sd = Inr as \<Longrightarrow>
     \<forall>a\<in>set as. alert_id a = ''alert_'' @ str_int (event_counter self) @ ''_'' @ alert_type a @ ''_''
                     @ str_int (now_epoch clk)"
  by (auto simp: check_humidity_alerts_def and_then_def getitem_def Let_def create_alert_def
           split: option.splits if_splits sum.splits)

lemma check_pressure_ids:
  "check_pressure_alerts clk self sd = Inr as \<Longrightarrow>
     \<forall>a\<in>set as. alert_id a = ''alert_'' @ str_int (event_counter self) @ ''_'' @ alert_type a @ ''_''
                     @ str_int (now_epoch clk)"
  by (auto simp: check_pressure_alerts_def and_then_def getitem_def Let_def create_alert_def
           split: option.splits if_splits sum.splits)

lemma check_battery_ids:
  "check_battery_alerts clk self sd = Inr as \<Longrightarrow>
     \<forall>a\<in>set as. alert_id a = ''alert_'' @ str_int (event_counter self) @ ''_'' @ alert_type a @ ''_''
                     @ str_int (now_epoch clk)"
  by (auto simp: check_battery_alerts_def and_then_def getitem_def Let_def create_alert_def
           split: option.splits if_splits sum.splits)

lemma detect_anomalies_ids:
  assumes "detect_anomalies clk self sd = Inr alerts"
  shows "\<forall>a\<in>set alerts. alert_id a = ''alert_'' @ str_int (event_counter self) @ ''_'' @ alert_type a
                     @ ''_'' @ str_int (now_epoch clk)"
proof -
  from detect_anomalies_split[OF assms] obtain ta ha pa ba where
    alerts: "alerts = ta @ ha @ pa @ ba"
    and t: "check_temperature_alerts clk self sd = Inr ta"
    and h: "check_humidity_alerts clk self sd = Inr ha"
    and p: "check_pressure_alerts clk self sd = Inr pa"
    and b: "check_battery_alerts clk self sd = Inr ba"
    by blast
  from check_temperature_ids[OF t] check_humidity_ids[OF h] check_pressure_ids[OF p]
    check_battery_ids[OF b]
  show ?thesis unfolding alerts set_append by (intro ballI) (elim UnE; simp)
qed

text \<open>
  Claim C9. \<open>generate_custom_sensor_data\<close> leaves the event counter as it was, for
  every input (also when the constructor of the reading raises), whereas
  \<open>generate_sensor_data\<close> adds one to it; so every alert that \<open>detect_anomalies\<close>
  makes for a custom reading carries in its identifier the counter value that the
  simulator had before the custom call.
\<close>

theorem generate_custom_keeps_event_counter:
  "event_counter (fst (snd (generate_custom_sensor_data clk sid t h p b (self, r))))
     = event_counter self
   \<and> (normal_ranges self = normal_ranges SensorSimulator_init \<longrightarrow>
        event_counter (fst (snd (generate_sensor_data clk sid (self, r)))) = event_counter self + 1)
   \<and> (\<forall>sd alerts.
        fst (generate_custom_sensor_data clk sid t h p b (self, r)) = Inr sd
        \<and> detect_anomalies clk'
             (fst (snd (generate_custom_sensor_data clk sid t h p b (self, r)))) sd = Inr alerts
        \<longrightarrow> (\<forall>a\<in>set alerts.
               alert_id a = ''alert_'' @ str_int (event_counter self) @ ''_'' @ alert_type a
                              @ ''_'' @ str_int (now_epoch clk')))"
proof (intro conjI allI impI)
  show "event_counter (fst (snd (generate_custom_sensor_data clk sid t h p b (self, r))))
          = event_counter self"
    by (simp only: generate_custom_frame)
next
  assume "normal_ranges self = normal_ranges SensorSimulator_init"
  then show "event_counter (fst (snd (generate_sensor_data clk sid (self, r)))) = event_counter self + 1"
    by (simp add: generate_sensor_data_init)
next
  fix sd alerts
  assume "fst (generate_custom_sensor_data clk sid t h p b (self, r)) = Inr sd
        \<and> detect_anomalies clk'
             (fst (snd (generate_custom_sensor_data clk sid t h p b (self, r)))) sd = Inr alerts"
  then have "detect_anomalies clk' self sd = Inr alerts"
    by (simp only: generate_custom_frame)
  then show "\<forall>a\<in>set alerts.
               alert_id a = ''alert_'' @ str_int (event_counter self) @ ''_'' @ alert_type a
                              @ ''_'' @ str_int (now_epoch clk')"
    by (rule detect_anomalies_ids)
qed

lemma str_int_examples: "str_int 7 = ''7''" "str_int 1761748200 = ''1761748200''"
  by (simp_all add: str_int_def str_nat.simps digit_char_def)

theorem generate_custom_keeps_event_counter_witness:
  "normal_ranges simulator_after_7 = normal_ranges SensorSimulator_init
   \<and> fst (generate_custom_sensor_data clock0 ''sensor_custom'' 31 55 (Some 1013) (Some (1 / 2))
            (simulator_after_7, rng_custom_example)) = Inr reading_custom_hot
   \<and> detect_anomalies clock0
        (fst (snd (generate_custom_sensor_data clock0 ''sensor_custom'' 31 55 (Some 1013)
                     (Some (1 / 2)) (simulator_after_7, rng_custom_example))))
        reading_custom_hot = Inr [alert_custom_hot]
   \<and> event_counter (fst (snd (generate_custom_sensor_data clock0 ''sensor_custom'' 31 55
        (Some 1013) (Some (1 / 2)) (simulator_after_7, rng_custom_example)))) = 7
   \<and> event_counter (fst (snd (generate_sensor_data clock0 ''sensor_custom''
        (simulator_after_7, rng_custom_example)))) = 8
   \<and> alert_id alert_custom_hot = ''alert_7_temperature_1761748200''"
proof -
  note th = generate_custom_keeps_event_counter
    [of clock0 "''sensor_custom''" 31 55 "Some 1013" "Some (1 / 2)" simulator_after_7
        rng_custom_example clock0]
  have nr: "normal_ranges simulator_after_7 = normal_ranges SensorSimulator_init"
    by (simp add: simulator_after_7_def)
  have gen: "fst (generate_custom_sensor_data clock0 ''sensor_custom'' 31 55 (Some 1013) (Some (1 / 2))
            (simulator_after_7, rng_custom_example)) = Inr reading_custom_hot"
    by (simp add: generate_custom_sensor_data_def seq_ret lift_def new_SensorData_def
          reading_custom_hot_def clock0_def)
  have th_init: "alert_thresholds simulator_after_7 = alert_thresholds SensorSimulator_init"
    by (simp add: simulator_after_7_def)
  have det0: "detect_anomalies clock0 simulator_after_7 reading_custom_hot = Inr [alert_custom_hot]"
    by (simp add: detect_anomalies_def check_temperature_alerts_def check_humidity_alerts_def
        check_pressure_alerts_def check_battery_alerts_def and_then_Inr Let_def getitem_def
        thresholds_init[OF th_init] reading_custom_hot_def alert_custom_hot_def)
  have det: "detect_anomalies clock0
        (fst (snd (generate_custom_sensor_data clock0 ''sensor_custom'' 31 55 (Some 1013)
                     (Some (1 / 2)) (simulator_after_7, rng_custom_example))))
        reading_custom_hot = Inr [alert_custom_hot]"
    using det0 by (simp only: generate_custom_frame)
  have c7: "event_counter simulator_after_7 = 7"
    by (simp add: simulator_after_7_def)
  from th have e1: "event_counter (fst (snd (generate_custom_sensor_data clock0 ''sensor_custom'' 31 55
        (Some 1013) (Some (1 / 2)) (simulator_after_7, rng_custom_example)))) = 7"
    by (simp only: c7)
  from th nr have e2: "event_counter (fst (snd (generate_sensor_data clock0 ''sensor_custom''
        (simulator_after_7, rng_custom_example)))) = 8"
    by (simp add: c7)
  from th[THEN conjunct2, THEN conjunct2, THEN spec, THEN spec, THEN mp, OF conjI, OF gen det]
  have "alert_id alert_custom_hot = ''alert_'' @ str_int (event_counter simulator_after_7) @ ''_''
          @ alert_type alert_custom_hot @ ''_'' @ str_int (now_epoch clock0)"
    by simp
  then have e3: "alert_id alert_custom_hot = ''alert_7_temperature_1761748200''"
    by (simp add: c7 str_int_examples alert_custom_hot_def create_alert_def clock0_def)
  from nr gen det e1 e2 e3 show ?thesis by (intro conjI)
qed

section \<open>The Kafka manager\<close>

lemma getattr_ensure: "getattr_self ''_ensure_topics_exist'' = Inl (AttributeError ''_ensure_topics_exist'')"
  by (simp add: getattr_self_def KafkaManager_attributes_def)

lemma initialize_never_succeeds:
  "fst (initialize env self) = Some False \<and> \<not> is_connected (snd (initialize env self))"
  by (simp add: initialize_def getattr_ensure Let_def split: option.splits)

text \<open>
  Claim C1. When the admin client and the producer both open without error,
  \<open>initialize\<close> sets the connected flag, then calls \<open>self._ensure_topics_exist()\<close>,
  an attribute the class does not have: the AttributeError is caught by the handler,
  which clears the flag and returns False. The call returns failure with both clients
  open and the manager not connected.
\<close>

theorem initialize_both_clients_open_returns_failure:
  "initialize env_both_open manager0 = (Some False, manager_clients_open)"
  by (simp add: initialize_def getattr_ensure Let_def env_both_open_def manager0_def
        KafkaManager_init_def manager_clients_open_def)

lemma already_exists_error_not_matched:
  "ensure_topics_handler (Raised ''kafka.errors.TopicAlreadyExistsError'') = False"
  by (simp add: ensure_topics_handler_def str_type_def)

lemma new_topics_config0: "\<exists>topics. new_topics topics_config0 [] = Inr topics"
  by (simp add: topics_config0_def getitem_def and_then_def)

text \<open>
  Claim C2. A first call whose \<open>create_topics\<close> request returns gives True. A
  second call with the same configuration, whose request raises the kafka library's
  TopicAlreadyExistsError, gives False: the handler looks for the text
  TopicAlreadyExistsException in the class of the exception.
\<close>

theorem ensure_topics_exist_second_call_fails:
  "ensure_topics_exist (\<lambda>topics. None) manager_clients_open topics_config0 = True
   \<and> ensure_topics_exist (\<lambda>topics. Some (Raised ''kafka.errors.TopicAlreadyExistsError''))
         manager_clients_open topics_config0 = False"
  using new_topics_config0
  by (auto simp: ensure_topics_exist_def manager_clients_open_def already_exists_error_not_matched)

lemma ensure_topics_exist_result:
  "ensure_topics_exist create_topics self topics_config =
     (admin_client self \<noteq> None \<and>
      (case new_topics topics_config [] of
         Inl e \<Rightarrow> str_in ''TopicAlreadyExistsException'' (str_type e)
       | Inr topics \<Rightarrow>
           (case create_topics topics of None \<Rightarrow> True
            | Some e \<Rightarrow> str_in ''TopicAlreadyExistsException'' (str_type e))))"
  by (simp add: ensure_topics_exist_def ensure_topics_handler_def split: sum.splits option.splits)

text \<open>
  Claim C10. When the manager is not connected or has no producer,
  \<open>publish_message\<close> returns False and \<open>publish_batch\<close> returns 0; neither
  calls the producer (no send, no flush is recorded) and the manager is unchanged.
\<close>

theorem publish_when_not_connected:
  assumes "\<not> is_connected self \<or> producer self = None"
  shows "publish_message tp msg self w = (False, self, w)
       \<and> publish_batch tp msgs self w = (Inr 0, self, w)"
  using assms by (auto simp: publish_message_def publish_batch_def)

theorem publish_when_not_connected_witness:
  "\<not> is_connected manager0 \<and> producer manager0 = None
   \<and> publish_message ''sensors'' (1::nat) manager0 \<lparr>script = (\<lambda>n. None), calls = []\<rparr>
       = (False, manager0, \<lparr>script = (\<lambda>n. None), calls = []\<rparr>)
   \<and> publish_batch ''sensors'' [1, 2, 3 :: nat] manager0 \<lparr>script = (\<lambda>n. None), calls = []\<rparr>
       = (Inr 0, manager0, \<lparr>script = (\<lambda>n. None), calls = []\<rparr>)"
proof -
  have h: "\<not> is_connected manager0 \<or> producer manager0 = None"
    by (simp add: manager0_def KafkaManager_init_def)
  note th = publish_when_not_connected
    [OF h, where tp = "''sensors''" and msg = "1::nat" and msgs = "[1, 2, 3]"
       and w = "\<lparr>script = (\<lambda>n. None), calls = []\<rparr>"]
  have n: "\<not> is_connected manager0" and p: "producer manager0 = None"
    by (simp_all add: manager0_def KafkaManager_init_def)
  from n p th[THEN conjunct1] th[THEN conjunct2] show ?thesis by (intro conjI)
qed

lemma publish_message_connected:
  assumes "is_connected self" and "producer self \<noteq> None"
  shows "publish_message tp msg self w =
           (script w (length (calls w)) = None, self,
            w\<lparr>calls := calls w @ [(Send tp msg, script w (length (calls w)))]\<rparr>)"
  using assms by (auto simp: publish_message_def producer_do_def Let_def split: option.splits)

lemma upt_shift: "[k..<k + Suc n] = k # [Suc k..<Suc k + n]"
  by (simp add: upt_conv_Cons)

lemma publish_batch_loop_connected:
  assumes "is_connected self" and "producer self \<noteq> None"
  shows "publish_batch_loop tp msgs n self w =
           (n + int (length (filter (\<lambda>out. out = None)
                       (map (script w) [length (calls w)..<length (calls w) + length msgs]))),
            self,
            w\<lparr>calls := calls w @ zip (map (Send tp) msgs)
                     (map (script w) [length (calls w)..<length (calls w) + length msgs])\<rparr>)"
proof (induction msgs arbitrary: n w)
  case Nil
  show ?case by simp
next
  case (Cons m ms)
  define k where "k = length (calls w)"
  define w' where "w' = w\<lparr>calls := calls w @ [(Send tp m, script w k)]\<rparr>"
  have w': "script w' = script w" "length (calls w') = Suc k" "calls w' = calls w @ [(Send tp m, script w k)]"
    by (simp_all add: w'_def k_def)
  have step: "publish_message tp m self w = (script w k = None, self, w')"
    unfolding w'_def k_def by (rule publish_message_connected[OF assms])
  have upt: "[k..<k + length (m # ms)] = k # [Suc k..<Suc k + length ms]"
    using upt_shift[of k "length ms"] by simp
  have "publish_batch_loop tp (m # ms) n self w =
          publish_batch_loop tp ms (if script w k = None then n + 1 else n) self w'"
    by (simp add: step)
  also have "\<dots> = ((if script w k = None then n + 1 else n)
                      + int (length (filter (\<lambda>out. out = None)
                          (map (script w) [Suc k..<Suc k + length ms]))),
                    self,
                    w'\<lparr>calls := calls w' @ zip (map (Send tp) ms)
                       (map (script w) [Suc k..<Suc k + length ms])\<rparr>)"
    using Cons.IH[of "if script w k = None then n + 1 else n" w'] by (simp only: w'(1,2))
  also have "\<dots> = (n + int (length (filter (\<lambda>out. out = None)
                       (map (script w) [k..<k + length (m # ms)]))),
            self,
            w\<lparr>calls := calls w @ zip (map (Send tp) (m # ms))
                     (map (script w) [k..<k + length (m # ms)])\<rparr>)"
    unfolding upt by (simp add: w'_def)
  finally show ?case unfolding k_def .
qed

text \<open>
  Claim C7. When the manager is connected and has a producer, \<open>publish_batch\<close>
  makes one send per payload, in the order of the list, and then exactly one flush,
  the last call before it returns. Unless the flush raises, it returns the number of
  sends that were acknowledged; the manager is unchanged.
\<close>

theorem publish_batch_counts_and_flushes_once:
  assumes "is_connected self" and "producer self \<noteq> None"
  shows "publish_batch tp msgs self w =
           ((case script w (length (calls w) + length msgs) of
               None \<Rightarrow> Inr (int (length (filter (\<lambda>out. out = None)
                          (map (script w) [length (calls w)..<length (calls w) + length msgs]))))
             | Some e \<Rightarrow> Inl e),
            self,
            w\<lparr>calls := calls w
                 @ zip (map (Send tp) msgs)
                       (map (script w) [length (calls w)..<length (calls w) + length msgs])
                 @ [(Flush, script w (length (calls w) + length msgs))]\<rparr>)"
proof -
  from assms have guard: "(\<not> is_connected self \<or> producer self = None) = False" by simp
  show ?thesis
    unfolding publish_batch_def guard if_False publish_batch_loop_connected[OF assms]
    by (simp add: producer_do_def Let_def split: option.splits)
qed

theorem publish_batch_counts_and_flushes_once_witness:
  "is_connected manager_connected \<and> producer manager_connected \<noteq> None
   \<and> publish_batch ''sensors'' [10, 11, 12, 13, 14 :: nat] manager_connected
        \<lparr>script = script_fail_1_3, calls = []\<rparr>
     = (Inr 3, manager_connected,
        \<lparr>script = script_fail_1_3,
         calls = [(Send ''sensors'' 10, None),
                  (Send ''sensors'' 11, Some (Raised ''kafka.errors.KafkaTimeoutError'')),
                  (Send ''sensors'' 12, None),
                  (Send ''sensors'' 13, Some (Raised ''kafka.errors.KafkaTimeoutError'')),
                  (Send ''sensors'' 14, None),
                  (Flush, None)]\<rparr>)"
proof -
  have c: "is_connected manager_connected" and p: "producer manager_connected \<noteq> None"
    by (simp_all add: manager_connected_def manager_clients_open_def)
  have upt5: "[0..<5] = [0, 1, 2, 3, 4]"
    by (simp add: upt_rec)
  note th = publish_batch_counts_and_flushes_once
    [OF c p, where tp = "''sensors''" and msgs = "[10, 11, 12, 13, 14 :: nat]"
       and w = "\<lparr>script = script_fail_1_3, calls = []\<rparr>"]
  have "publish_batch ''sensors'' [10, 11, 12, 13, 14 :: nat] manager_connected
        \<lparr>script = script_fail_1_3, calls = []\<rparr>
     = (Inr 3, manager_connected,
        \<lparr>script = script_fail_1_3,
         calls = [(Send ''sensors'' 10, None),
                  (Send ''sensors'' 11, Some (Raised ''kafka.errors.KafkaTimeoutError'')),
                  (Send ''sensors'' 12, None),
                  (Send ''sensors'' 13, Some (Raised ''kafka.errors.KafkaTimeoutError'')),
                  (Send ''sensors'' 14, None),
                  (Flush, None)]\<rparr>)"
    unfolding th by (simp add: upt5 script_fail_1_3_def)
  with c p show ?thesis by (intro conjI)
qed

section \<open>Triggering sensors\<close>

lemma app_publish_cases:
  "app_publish tp msg st =
     (if \<not> can_send st then (False, st)
      else (script (kafka st) (length (calls (kafka st))) = None,
            st\<lparr>kafka := (kafka st)\<lparr>calls := calls (kafka st)
                  @ [(Send tp msg, script (kafka st) (length (calls (kafka st))))]\<rparr>\<rparr>))"
  by (auto simp: app_publish_def publish_message_def producer_do_def Let_def can_send_def
      split: option.splits)

lemma app_publish_frame:
  assumes "app_publish tp msg st = (ok, st')"
  shows "kafka_manager st' = kafka_manager st" and "sensor_simulator st' = sensor_simulator st"
    and "statistics st' = statistics st" and "can_send st' = can_send st"
  using assms by (auto simp: app_publish_cases can_send_def split: if_splits)

lemma app_publish_alert_counts:
  assumes "app_publish ALERT_TOPIC msg st = (ok, st')"
  shows "acked_readings st' = acked_readings st" and "failed_readings st' = failed_readings st"
  using assms
  by (auto simp: app_publish_cases acked_readings_def failed_readings_def reading_acked_def
        reading_failed_def ALERT_TOPIC_def SENSOR_TOPIC_def split: if_splits)

lemma app_publish_reading_counts:
  assumes "app_publish SENSOR_TOPIC msg st = (ok, st')"
  shows "acked_readings st' = acked_readings st + (if ok then 1 else 0)"
    and "failed_readings st' = failed_readings st + (if can_send st \<and> \<not> ok then 1 else 0)"
  using assms
  by (auto simp: app_publish_cases acked_readings_def failed_readings_def reading_acked_def
        reading_failed_def split: if_splits)

lemma alerts_loop_frame:
  "alerts_loop alerts n st = (r, st') \<Longrightarrow>
     (\<exists>n'. r = Inr n') \<and> kafka_manager st' = kafka_manager st
     \<and> sensor_simulator st' = sensor_simulator st \<and> statistics st' = statistics st
     \<and> can_send st' = can_send st
     \<and> acked_readings st' = acked_readings st \<and> failed_readings st' = failed_readings st"
proof (induction alerts arbitrary: n st)
  case Nil
  then show ?case by auto
next
  case (Cons a as)
  obtain ok st1 where p: "app_publish ALERT_TOPIC (AlertDict a) st = (ok, st1)"
    by (cases "app_publish ALERT_TOPIC (AlertDict a) st")
  with Cons.prems have "alerts_loop as (if ok then n + 1 else n) st1 = (r, st')" by simp
  from Cons.IH[OF this] app_publish_frame[OF p] app_publish_alert_counts[OF p]
  show ?case by simp
qed


lemma seq_Inr: "m s = (Inr v, s') \<Longrightarrow> seq m f s = f v s'"
  by (simp add: seq_def)

lemma seq_result_Inr:
  assumes "seq m f s = (Inr y, s'')"
  obtains v s' where "m s = (Inr v, s')" and "f v s' = (Inr y, s'')"
  using assms by (auto simp: seq_def split: prod.splits sum.splits)

lemma statistics_add_Inr:
  assumes "statistics_add k n st = (Inr u, st')"
  shows "\<exists>v. statistics st k = Some v \<and> st' = st\<lparr>statistics := (statistics st)(k \<mapsto> v + n)\<rparr>"
  using assms by (auto simp: statistics_add_def split: option.splits)

lemma sensors_loop_counts:
  assumes "sensors_loop clk batch (pc, ag) st = (Inr (pc', ag'), st')"
    and "statistics st ''total_events_published'' = Some p"
  shows "statistics st' = (statistics st)(''total_events_published'' \<mapsto> p + (pc' - pc))
       \<and> pc' - pc = acked_readings st' - acked_readings st
       \<and> failed_readings st' - failed_readings st
           = (if can_send st then int (length batch) - (pc' - pc) else 0)
       \<and> kafka_manager st' = kafka_manager st
       \<and> sensor_simulator st' = sensor_simulator st
       \<and> can_send st' = can_send st"
  using assms
proof (induction batch arbitrary: pc ag st p)
  case Nil
  then show ?case by auto
next
  case (Cons sd rest)
  obtain ok st1 where pub: "app_publish SENSOR_TOPIC (ReadingDict sd) st = (ok, st1)"
    by (cases "app_publish SENSOR_TOPIC (ReadingDict sd) st")
  note f1 = app_publish_frame[OF pub] and c1 = app_publish_reading_counts[OF pub]
  show ?case
  proof (cases ok)
    case False
    with pub Cons.prems(1) have "sensors_loop clk rest (pc, ag) st1 = (Inr (pc', ag'), st')"
      by simp
    moreover from Cons.prems(2) f1 have "statistics st1 ''total_events_published'' = Some p" by simp
    ultimately have IH: "statistics st' = (statistics st1)(''total_events_published'' \<mapsto> p + (pc' - pc))
       \<and> pc' - pc = acked_readings st' - acked_readings st1
       \<and> failed_readings st' - failed_readings st1
           = (if can_send st1 then int (length rest) - (pc' - pc) else 0)
       \<and> kafka_manager st' = kafka_manager st1
       \<and> sensor_simulator st' = sensor_simulator st1
       \<and> can_send st' = can_send st1"
      by (rule Cons.IH)
    with f1 c1 False show ?thesis by (auto split: if_splits)
  next
    case True
    with pub Cons.prems(1) have run:
      "seq (statistics_add ''total_events_published'' 1) (\<lambda>_.
       seq (\<lambda>s. (detect_anomalies clk (sensor_simulator s) sd, s)) (\<lambda>alerts.
       seq (alerts_loop alerts ag) (\<lambda>alerts_generated'.
       sensors_loop clk rest (pc + 1, alerts_generated')))) st1 = (Inr (pc', ag'), st')"
      by simp
    from run obtain u st2 where
      add: "statistics_add ''total_events_published'' 1 st1 = (Inr u, st2)"
      and run2: "seq (\<lambda>s. (detect_anomalies clk (sensor_simulator s) sd, s)) (\<lambda>alerts.
       seq (alerts_loop alerts ag) (\<lambda>alerts_generated'.
       sensors_loop clk rest (pc + 1, alerts_generated'))) st2 = (Inr (pc', ag'), st')"
      by (rule seq_result_Inr)
    from run2 obtain alerts st3 where
      det: "(detect_anomalies clk (sensor_simulator st2) sd, st2) = (Inr alerts, st3)"
      and run3: "seq (alerts_loop alerts ag) (\<lambda>alerts_generated'.
       sensors_loop clk rest (pc + 1, alerts_generated')) st3 = (Inr (pc', ag'), st')"
      by (rule seq_result_Inr)
    from det have st3: "st3 = st2" by simp
    from run3 obtain ag1 st4 where
      al: "alerts_loop alerts ag st3 = (Inr ag1, st4)"
      and run4: "sensors_loop clk rest (pc + 1, ag1) st4 = (Inr (pc', ag'), st')"
      by (rule seq_result_Inr)
    from Cons.prems(2) f1 have p1: "statistics st1 ''total_events_published'' = Some p" by simp
    from statistics_add_Inr[OF add] p1
    have st2: "st2 = st1\<lparr>statistics := (statistics st1)(''total_events_published'' \<mapsto> p + 1)\<rparr>"
      by auto
    note f4 = alerts_loop_frame[OF al]
    have s4: "statistics st4 = (statistics st)(''total_events_published'' \<mapsto> p + 1)"
      using f4 st3 st2 f1 by simp
    then have p4: "statistics st4 ''total_events_published'' = Some (p + 1)" by simp
    have k4: "kafka_manager st4 = kafka_manager st" "sensor_simulator st4 = sensor_simulator st"
      "can_send st4 = can_send st"
      using f4 st3 st2 f1 by (simp_all add: can_send_def)
    have a4: "acked_readings st4 = acked_readings st + 1"
      "failed_readings st4 = failed_readings st"
      using f4 st3 st2 c1 True by (simp_all add: acked_readings_def failed_readings_def)
    have IH: "statistics st' = (statistics st4)(''total_events_published'' \<mapsto> p + 1 + (pc' - (pc + 1)))
       \<and> pc' - (pc + 1) = acked_readings st' - acked_readings st4
       \<and> failed_readings st' - failed_readings st4
           = (if can_send st4 then int (length rest) - (pc' - (pc + 1)) else 0)
       \<and> kafka_manager st' = kafka_manager st4
       \<and> sensor_simulator st' = sensor_simulator st4
       \<and> can_send st' = can_send st4"
      using run4 p4 by (rule Cons.IH)
    from True pub have cs: "can_send st" by (auto simp: app_publish_cases split: if_splits)
    from IH s4 k4 a4 cs show ?thesis by (auto split: if_splits)
  qed
qed

lemma generate_batch_loop_length:
  "generate_batch_loop clk is batch s = (Inr out, s') \<Longrightarrow> length out = length batch + length is"
proof (induction "is" arbitrary: batch s)
  case Nil
  then show ?case by (simp add: ret_def)
next
  case (Cons i "is")
  from Cons.prems obtain data s1 where
    "generate_sensor_data clk (''sensor_'' @ fmt_03d i) s = (Inr data, s1)"
    and "generate_batch_loop clk is (batch @ [data]) s1 = (Inr out, s')"
    unfolding generate_batch_loop.simps by (rule seq_result_Inr)
  from Cons.IH[OF this(2)] show ?case by simp
qed

lemma generate_batch_length:
  assumes "generate_batch clk count s = (Inr out, s')"
  shows "int (length out) = (if 0 \<le> count then count else 0)"
  using generate_batch_loop_length[OF assms[unfolded generate_batch_def]] by simp

lemma app_generate_batch_Inr:
  assumes "app_generate_batch clk count st = (Inr batch, st1)"
  shows "int (length batch) = (if 0 \<le> count then count else 0)"
    and "statistics st1 = statistics st" and "kafka_manager st1 = kafka_manager st"
    and "kafka st1 = kafka st"
proof -
  obtain r sim rnd where g: "generate_batch clk count (sensor_simulator st, random st) = (r, (sim, rnd))"
    by (cases "generate_batch clk count (sensor_simulator st, random st)") auto
  with assms have r: "r = Inr batch" and st1: "st1 = st\<lparr>sensor_simulator := sim, random := rnd\<rparr>"
    by (simp_all add: app_generate_batch_def)
  from g r show "int (length batch) = (if 0 \<le> count then count else 0)"
    by (intro generate_batch_length) simp
  from st1 show "statistics st1 = statistics st" "kafka_manager st1 = kafka_manager st"
    "kafka st1 = kafka st" by simp_all
qed

text \<open>
  Claim C8. When \<open>trigger_sensors\<close> passes the connected check and returns its
  response (both statistics keys being present, as \<open>main\<close> sets them), the
  triggered-sensors counter has grown by exactly \<open>count\<close> and the published-events
  counter by the number of readings whose publish was acknowledged, which is the
  \<open>events_published\<close> of the response. With a producer and a non-negative count the
  two increments differ by the number of readings whose publish failed.
\<close>

theorem trigger_sensors_counters:
  assumes "trigger_sensors clk count st = (Inr response, st')"
    and "statistics st ''total_events_published'' = Some p"
    and "statistics st ''total_sensors_triggered'' = Some t"
  shows "statistics st' ''total_sensors_triggered'' = Some (t + count)
       \<and> statistics st' ''total_events_published'' = Some (p + events_published response)
       \<and> sensors_triggered response = count
       \<and> events_published response = acked_readings st' - acked_readings st
       \<and> (producer (kafka_manager st) \<noteq> None \<and> 0 \<le> count \<longrightarrow>
            events_published response = count - (failed_readings st' - failed_readings st))"
proof -
  from assms(1) have conn: "is_connected (kafka_manager st)"
    by (auto simp: trigger_sensors_def split: if_splits)
  define body where "body =
    seq (app_generate_batch clk count) (\<lambda>batch.
    seq (sensors_loop clk batch (0, 0)) (\<lambda>(published_count, alerts_generated).
    seq (statistics_add ''total_sensors_triggered'' count) (\<lambda>_.
    ret \<lparr>status = ''success'',
         sensors_triggered = count,
         events_published = published_count,
         topic = SENSOR_TOPIC,
         response_timestamp = now_iso clk @ ''Z'',
         response_message = success_message published_count count alerts_generated\<rparr>)))"
  from assms(1) conn have run: "body st = (Inr response, st')"
    unfolding trigger_sensors_def body_def by (auto split: prod.splits sum.splits)
  from run obtain batch st1 where
    gen: "app_generate_batch clk count st = (Inr batch, st1)"
    and run1: "seq (sensors_loop clk batch (0, 0)) (\<lambda>(published_count, alerts_generated).
      seq (statistics_add ''total_sensors_triggered'' count) (\<lambda>_.
      ret \<lparr>status = ''success'',
         sensors_triggered = count,
         events_published = published_count,
         topic = SENSOR_TOPIC,
         response_timestamp = now_iso clk @ ''Z'',
         response_message = success_message published_count count alerts_generated\<rparr>)) st1
       = (Inr response, st')"
    unfolding body_def by (rule seq_result_Inr)
  from run1 obtain counts st2 where
    loop0: "sensors_loop clk batch (0, 0) st1 = (Inr counts, st2)"
    and run2: "(case counts of (published_count, alerts_generated) \<Rightarrow>
      seq (statistics_add ''total_sensors_triggered'' count) (\<lambda>_.
      ret \<lparr>status = ''success'',
         sensors_triggered = count,
         events_published = published_count,
         topic = SENSOR_TOPIC,
         response_timestamp = now_iso clk @ ''Z'',
         response_message = success_message published_count count alerts_generated\<rparr>)) st2
       = (Inr response, st')"
    by (rule seq_result_Inr)
  obtain pc ag where counts: "counts = (pc, ag)" by (cases counts)
  from loop0 counts have loop: "sensors_loop clk batch (0, 0) st1 = (Inr (pc, ag), st2)" by simp
  from run2 counts obtain u st3 where
    add: "statistics_add ''total_sensors_triggered'' count st2 = (Inr u, st3)"
    and fin: "ret \<lparr>status = ''success'',
         sensors_triggered = count,
         events_published = pc,
         topic = SENSOR_TOPIC,
         response_timestamp = now_iso clk @ ''Z'',
         response_message = success_message pc count ag\<rparr> st3 = (Inr response, st')"
    by (auto elim: seq_result_Inr)
  from fin have resp: "events_published response = pc" "sensors_triggered response = count"
    and st3: "st' = st3"
    by (auto simp: ret_def)
  note g = app_generate_batch_Inr[OF gen]
  from g assms(2) have p1: "statistics st1 ''total_events_published'' = Some p" by simp
  from sensors_loop_counts[OF loop p1]
  have s2: "statistics st2 = (statistics st1)(''total_events_published'' \<mapsto> p + pc)"
    and a2: "pc = acked_readings st2 - acked_readings st1"
    and f2: "failed_readings st2 - failed_readings st1
               = (if can_send st1 then int (length batch) - pc else 0)"
    by simp_all
  from s2 g assms(3) have t2: "statistics st2 ''total_sensors_triggered'' = Some t" by simp
  from statistics_add_Inr[OF add] t2
  have st3': "st3 = st2\<lparr>statistics := (statistics st2)(''total_sensors_triggered'' \<mapsto> t + count)\<rparr>"
    by auto
  have k1: "acked_readings st1 = acked_readings st" "failed_readings st1 = failed_readings st"
    using g by (simp_all add: acked_readings_def failed_readings_def)
  have k3: "acked_readings st' = acked_readings st2" "failed_readings st' = failed_readings st2"
    using st3 st3' by (simp_all add: acked_readings_def failed_readings_def)
  have stat_t: "statistics st' ''total_sensors_triggered'' = Some (t + count)"
    using st3 st3' by simp
  have stat_p: "statistics st' ''total_events_published'' = Some (p + events_published response)"
    using st3 st3' s2 resp by simp
  have acked: "events_published response = acked_readings st' - acked_readings st"
    using resp a2 k1 k3 by simp
  have failed: "producer (kafka_manager st) \<noteq> None \<and> 0 \<le> count \<longrightarrow>
            events_published response = count - (failed_readings st' - failed_readings st)"
  proof
    assume h: "producer (kafka_manager st) \<noteq> None \<and> 0 \<le> count"
    with conn g have "can_send st1" by (simp add: can_send_def)
    with f2 have "failed_readings st2 - failed_readings st1 = int (length batch) - pc" by simp
    with g(1) h k1 k3 resp show "events_published response
        = count - (failed_readings st' - failed_readings st)" by simp
  qed
  from stat_t stat_p resp(2) acked failed show ?thesis by (intro conjI)
qed

lemma round2_half_values:
  "round2 23 = 23" "round2 57 = 57" "round2 (4063 / 4) = 4063 / 4" "round2 (13 / 20) = 13 / 20"
  using round2_of_int_div[of 2300] round2_of_int_div[of 5700] round2_of_int_div[of 101575]
    round2_of_int_div[of 65]
  by simp_all

lemma generate_half:
  assumes "normal_ranges self = normal_ranges SensorSimulator_init"
  shows "generate_sensor_data clock0 sid (self, rng_half) =
           (Inr (reading_half sid), (self\<lparr>event_counter := event_counter self + 1\<rparr>, rng_half))"
  unfolding generate_sensor_data_init[OF assms]
  by (simp add: rng_half_def round2_half_values new_SensorData_def reading_half_def clock0_def)

lemma detect_half:
  assumes "alert_thresholds self = alert_thresholds SensorSimulator_init"
  shows "detect_anomalies clk self (reading_half sid) = Inr []"
  by (simp add: detect_anomalies_def check_temperature_alerts_def check_humidity_alerts_def
        check_pressure_alerts_def check_battery_alerts_def and_then_Inr Let_def getitem_def
        thresholds_init[OF assms] reading_half_def)

lemma upto_1_2: "[1..2] = [1, 2 :: int]"
  by (simp add: upto.simps)

lemma fmt_03d_examples: "fmt_03d 1 = ''001''" "fmt_03d 2 = ''002''"
  by (simp_all add: fmt_03d_def str_nat.simps digit_char_def eval_nat_numeral)

lemma seq_generate_half:
  assumes "normal_ranges self = normal_ranges SensorSimulator_init"
  shows "seq (generate_sensor_data clock0 sid) f (self, rng_half) =
           f (reading_half sid) (self\<lparr>event_counter := event_counter self + 1\<rparr>, rng_half)"
  by (simp add: seq_def generate_half[OF assms])

lemma generate_batch_half:
  "generate_batch clock0 2 (SensorSimulator_init, rng_half) =
     (Inr [reading_half ''sensor_001'', reading_half ''sensor_002''],
      (SensorSimulator_init\<lparr>event_counter := 2\<rparr>, rng_half))"
proof -
  have ec: "event_counter SensorSimulator_init = 0" by (simp add: SensorSimulator_init_def)
  show ?thesis
    unfolding generate_batch_def upto_1_2 generate_batch_loop.simps
    by (simp add: seq_generate_half fmt_03d_examples ret_def ec)
qed

lemma app0_fields:
  "is_connected (kafka_manager app0)" "can_send app0"
  "statistics app0 ''total_events_published'' = Some 0"
  "statistics app0 ''total_sensors_triggered'' = Some 0"
  "producer (kafka_manager app0) \<noteq> None"
  "acked_readings app0 = 0" "failed_readings app0 = 0"
  by (simp_all add: app0_def manager_connected_def manager_clients_open_def can_send_def
        acked_readings_def failed_readings_def)

lemma trigger_sensors_app0:
  "fst (trigger_sensors clock0 2 app0) = Inr response0"
proof -
  have gen: "app_generate_batch clock0 2 app0 =
      (Inr [reading_half ''sensor_001'', reading_half ''sensor_002''],
       app0\<lparr>sensor_simulator := SensorSimulator_init\<lparr>event_counter := 2\<rparr>, random := rng_half\<rparr>)"
    by (simp add: app_generate_batch_def app0_def generate_batch_half)
  have th: "alert_thresholds (SensorSimulator_init\<lparr>event_counter := 2\<rparr>)
              = alert_thresholds SensorSimulator_init" by simp
  have loop: "fst (sensors_loop clock0 [reading_half ''sensor_001'', reading_half ''sensor_002''] (0, 0)
       (app0\<lparr>sensor_simulator := SensorSimulator_init\<lparr>event_counter := 2\<rparr>, random := rng_half\<rparr>))
       = Inr (1, 0)"
    by (simp add: app_publish_cases can_send_def app0_def manager_connected_def
          manager_clients_open_def script_fail_first_def seq_def statistics_add_def
          detect_half[OF th])
  define st1 where "st1 = app0\<lparr>sensor_simulator := SensorSimulator_init\<lparr>event_counter := 2\<rparr>,
                                  random := rng_half\<rparr>"
  obtain st2 where loop2: "sensors_loop clock0 [reading_half ''sensor_001'', reading_half ''sensor_002'']
       (0, 0) st1 = (Inr (1, 0), st2)"
    using loop unfolding st1_def[symmetric]
    by (cases "sensors_loop clock0 [reading_half ''sensor_001'', reading_half ''sensor_002''] (0, 0) st1")
       simp
  have p1: "statistics st1 ''total_events_published'' = Some 0"
    by (simp add: st1_def app0_def)
  from sensors_loop_counts[OF loop2 p1]
  have "statistics st2 = (statistics st1)(''total_events_published'' \<mapsto> 1)" by simp
  then have t2: "statistics st2 ''total_sensors_triggered'' = Some 0"
    by (simp add: st1_def app0_def)
  have msg: "success_message 1 2 0 = ''Successfully published 1/2 sensor events''"
    by (simp add: success_message_def str_int_def str_nat.simps digit_char_def)
  have conn: "is_connected (kafka_manager app0)" by (rule app0_fields(1))
  have iso: "now_iso clock0 @ ''Z'' = ''2025-10-29T14:30:00Z''" by (simp add: clock0_def)
  have add2: "statistics_add ''total_sensors_triggered'' 2 st2 =
      (Inr (), st2\<lparr>statistics := (statistics st2)(''total_sensors_triggered'' \<mapsto> 0 + 2)\<rparr>)"
    by (simp add: statistics_add_def t2)
  have r0: "response0 = \<lparr>status = ''success'', sensors_triggered = 2, events_published = 1,
      topic = SENSOR_TOPIC, response_timestamp = now_iso clock0 @ ''Z'',
      response_message = success_message 1 2 0\<rparr>"
    by (simp add: response0_def msg iso SENSOR_TOPIC_def)
  show ?thesis
    unfolding trigger_sensors_def r0
    by (simp only: conn not_True_eq_False if_False seq_def gen[unfolded st1_def[symmetric]]
          loop2 add2 ret_def prod.case sum.case fst_conv)
qed

theorem trigger_sensors_counters_witness:
  "statistics app0 ''total_events_published'' = Some 0
   \<and> statistics app0 ''total_sensors_triggered'' = Some 0
   \<and> fst (trigger_sensors clock0 2 app0) = Inr response0
   \<and> statistics (snd (trigger_sensors clock0 2 app0)) ''total_sensors_triggered'' = Some 2
   \<and> statistics (snd (trigger_sensors clock0 2 app0)) ''total_events_published'' = Some 1
   \<and> acked_readings (snd (trigger_sensors clock0 2 app0)) = 1
   \<and> failed_readings (snd (trigger_sensors clock0 2 app0)) = 1"
proof -
  have run: "trigger_sensors clock0 2 app0 = (Inr response0, snd (trigger_sensors clock0 2 app0))"
    using trigger_sensors_app0 by (simp add: prod_eq_iff)
  note th = trigger_sensors_counters[OF run app0_fields(3) app0_fields(4)]
  have ev: "events_published response0 = 1" by (simp add: response0_def)
  from th have t: "statistics (snd (trigger_sensors clock0 2 app0)) ''total_sensors_triggered'' = Some 2"
    by simp
  from th ev have p: "statistics (snd (trigger_sensors clock0 2 app0)) ''total_events_published'' = Some 1"
    by simp
  from th ev have a: "acked_readings (snd (trigger_sensors clock0 2 app0)) = 1"
    by (simp add: app0_fields)
  from th ev have f: "failed_readings (snd (trigger_sensors clock0 2 app0)) = 1"
    by (simp add: app0_fields)
  from app0_fields(3) app0_fields(4) trigger_sensors_app0 t p a f show ?thesis by (intro conjI)
qed

end
